theory Spec2Isabelle
  imports Main "HOL-Library.Sublist"
begin

section \<open>Values, requests, responses\<close>

text \<open>
  The router (\<^verbatim>\<open>class Router\<close>) is written against the platform types \<^verbatim>\<open>Request\<close>,
  \<^verbatim>\<open>Response\<close>, \<^verbatim>\<open>URL\<close> and \<^verbatim>\<open>URLSearchParams\<close>. A request is modelled by the
  views of it that the router reads: its method, the pathname of its URL, the entries
  of the query string, the Content-Type header, and what each body reader yields.
  JavaScript strings are modelled as \<^typ>\<open>string\<close> (characters are the code units below
  256), and a \<^verbatim>\<open>RegExp\<close> by its source text.

  The values a parameter can hold. The router never computes with a number: all it can
  make of one is its text \<^verbatim>\<open>String(n)\<close>, so a number is modelled by that text (\<^verbatim>\<open>"42"\<close>,
  \<^verbatim>\<open>"1e+21"\<close>). \<open>JObj\<close> holds the entries of an object as \<^verbatim>\<open>Object.entries\<close> lists them, each key
  once. A file field of a multipart form is outside the model.
\<close>

datatype jsval =
    JNull
  | JBool bool
  | JNum string
  | JStr string
  | JArr "jsval list"
  | JObj "(string \<times> jsval) list"

text \<open>
  The number \<^verbatim>\<open>parseInt\<close> returns: an integer-valued double, \<^verbatim>\<open>NaN\<close>, \<^verbatim>\<open>-0\<close> or an infinity.
\<close>

datatype jsnum = NaN | Finite int | NegativeZero | Infinity | NegativeInfinity

record response =
  status :: nat
  body :: string

record request =
  req_method :: string
  req_pathname :: string
  req_query :: "(string \<times> string) list"
  req_contentType :: "string option"
  req_json :: "jsval option"
  req_form :: "(string \<times> string) list"
  req_multipart :: "(string \<times> jsval) list option"

text \<open>
  A rejected promise or a thrown exception is a value. \<open>TypeError\<close> is what the body
  readers reject with once the body has been read, \<open>SyntaxError\<close> what \<^verbatim>\<open>request.json()\<close>
  rejects with on a body that is not JSON and what \<^verbatim>\<open>new RegExp\<close> throws on a source that is
  not an expression, \<open>Thrown\<close> anything a handler or a middleware throws itself.
\<close>

datatype failure = TypeError | SyntaxError | Thrown string

text \<open>
  \<^verbatim>\<open>params\<close> is a plain object, \<^verbatim>\<open>{}\<close>: it has own properties and a prototype. The prototype
  is \<^verbatim>\<open>Object.prototype\<close> at first; an assignment to the key \<^verbatim>\<open>__proto__\<close> can replace it by an
  object or an array that came out of a JSON body, or by \<^verbatim>\<open>null\<close>.
\<close>

datatype proto = ObjectPrototype | NullPrototype | ValuePrototype jsval

record pobject =
  own :: "string \<rightharpoonup> jsval"
  inherits :: proto

definition emptyObject :: pobject where
  "emptyObject = \<lparr> own = Map.empty, inherits = ObjectPrototype \<rparr>"

text \<open>
  The assignment \<^verbatim>\<open>obj[key] = v\<close>. Every property of \<^verbatim>\<open>Object.prototype\<close>, of \<^verbatim>\<open>Array.prototype\<close>
  and of a parsed JSON value is a writable data property, except the accessor
  \<^verbatim>\<open>__proto__\<close> of \<^verbatim>\<open>Object.prototype\<close>. So an assignment to any other key stores an own
  property. An assignment to \<^verbatim>\<open>__proto__\<close> stores an own property only where the lookup
  meets a data property of that name first (an own one, or a member \<^verbatim>\<open>__proto__\<close> of a JSON
  object installed as prototype) or meets nothing (prototype \<^verbatim>\<open>null\<close>); otherwise it runs
  the setter, which installs an object, an array or \<^verbatim>\<open>null\<close> as prototype and ignores
  every other value.
\<close>

definition protoSetter :: "pobject \<Rightarrow> jsval \<Rightarrow> pobject" where
  "protoSetter obj v =
     (case v of
        JObj members \<Rightarrow> obj\<lparr> inherits := ValuePrototype v \<rparr>
      | JArr xs \<Rightarrow> obj\<lparr> inherits := ValuePrototype v \<rparr>
      | JNull \<Rightarrow> obj\<lparr> inherits := NullPrototype \<rparr>
      | _ \<Rightarrow> obj)"

definition setProperty :: "pobject \<Rightarrow> string \<Rightarrow> jsval \<Rightarrow> pobject" where
  "setProperty obj key v =
     (if key \<noteq> ''__proto__'' then obj\<lparr> own := (own obj)(key \<mapsto> v) \<rparr>
      else if own obj key \<noteq> None then obj\<lparr> own := (own obj)(key \<mapsto> v) \<rparr>
      else (case inherits obj of
              NullPrototype \<Rightarrow> obj\<lparr> own := (own obj)(key \<mapsto> v) \<rparr>
            | ValuePrototype (JObj members) \<Rightarrow>
                if key \<in> fst ` set members then obj\<lparr> own := (own obj)(key \<mapsto> v) \<rparr>
                else protoSetter obj v
            | ValuePrototype other \<Rightarrow> protoSetter obj v
            | ObjectPrototype \<Rightarrow> protoSetter obj v))"

text \<open>
  The mutable objects of one call of \<^verbatim>\<open>route\<close>: the \<^verbatim>\<open>params\<close> object that is shared by
  reference between the router, every middleware and the handler; the one-shot body of
  the request (\<^verbatim>\<open>bodyUsed\<close>); and whatever else handlers and middlewares can change
  (\<open>world\<close>).
\<close>

record 'w rstate =
  params :: pobject
  bodyUsed :: bool
  world :: 'w

type_synonym 'w comp = "'w rstate \<Rightarrow> (failure + response) \<times> 'w rstate"
type_synonym 'w callback = "request \<Rightarrow> 'w comp"
type_synonym 'w middleware = "request \<Rightarrow> 'w comp \<Rightarrow> 'w comp"

datatype http_method = GET | POST | PUT | DELETE | PATCH | OPTIONS

section \<open>The trie\<close>

text \<open>
  \<^verbatim>\<open>class TrieNode\<close>. The fields declared with \<^verbatim>\<open>!\<close> are undefined until assigned, hence
  options. \<^verbatim>\<open>children\<close> is a \<^verbatim>\<open>Map\<close> that is only read with \<^verbatim>\<open>has\<close>/\<^verbatim>\<open>get\<close> and written with
  \<^verbatim>\<open>set\<close>, so a partial function.
\<close>

datatype 'w trie_node = TrieNode
  (children: "string \<Rightarrow> 'w trie_node option")
  (callback: "'w callback option")
  (pattern: "string option")
  (paramName: "string option")
  (splatName: "string option")
  (middlewares: "'w middleware list")

definition newTrieNode :: "'w trie_node" where
  "newTrieNode = TrieNode (\<lambda>_. None) None None None None []"

definition setChild :: "'w trie_node \<Rightarrow> string \<Rightarrow> 'w trie_node \<Rightarrow> 'w trie_node" where
  "setChild node key child =
     TrieNode ((children node)(key \<mapsto> child)) (callback node) (pattern node)
       (paramName node) (splatName node) (middlewares node)"

definition setParamName :: "'w trie_node \<Rightarrow> string \<Rightarrow> 'w trie_node" where
  "setParamName node name =
     TrieNode (children node) (callback node) (pattern node)
       (Some name) (splatName node) (middlewares node)"

definition setSplatName :: "'w trie_node \<Rightarrow> string \<Rightarrow> 'w trie_node" where
  "setSplatName node name =
     TrieNode (children node) (callback node) (pattern node)
       (paramName node) (Some name) (middlewares node)"

text \<open>
  The assignments that end \<^verbatim>\<open>addRoute\<close>: line 121 alone, which is all that has happened
  when line 122 throws, and lines 121-123 together.
\<close>

definition setCallback :: "'w callback \<Rightarrow> 'w trie_node \<Rightarrow> 'w trie_node" where
  "setCallback cb node =
     TrieNode (children node) (Some cb) (pattern node) (paramName node) (splatName node)
       (middlewares node)"

definition setRoute ::
  "'w callback \<Rightarrow> string \<Rightarrow> 'w middleware list \<Rightarrow> 'w trie_node \<Rightarrow> 'w trie_node" where
  "setRoute cb pat ms node =
     TrieNode (children node) (Some cb) (Some pat) (paramName node) (splatName node) ms"

record 'w router =
  methods :: "http_method \<Rightarrow> 'w trie_node"
  globalMiddlewares :: "'w middleware list"

text \<open>The constructor: one empty trie for each of the six methods.\<close>

definition newRouter :: "'w router" where
  "newRouter = \<lparr> methods = (\<lambda>_. newTrieNode), globalMiddlewares = [] \<rparr>"

definition use :: "'w router \<Rightarrow> 'w middleware \<Rightarrow> 'w router" where
  "use r middleware = r\<lparr> globalMiddlewares := globalMiddlewares r @ [middleware] \<rparr>"

section \<open>Path patterns\<close>

text \<open>The characters that \<^verbatim>\<open>.\<close> of a regular expression does not match.\<close>

definition lineTerminator :: "char \<Rightarrow> bool" where
  "lineTerminator c \<longleftrightarrow> c = CHR 0x0A \<or> c = CHR 0x0D"

text \<open>
  \<^verbatim>\<open>splitPath\<close> collects the matches of
  \<^verbatim>\<open>/(\(.+?\))|(:[^/]+)|(\*[^/]+)|([^/]+)/g\<close>. \<open>matchToken\<close> is one attempt of the
  expression at the head of the text: the first alternative that matches, as the
  token and the text after it.

  \<open>scanClose\<close> is the lazy \<^verbatim>\<open>.+?\)\<close> after the first character of the group: it stops at
  the first closing parenthesis and fails on a line terminator before it.
\<close>

fun scanClose :: "string \<Rightarrow> string \<Rightarrow> (string \<times> string) option" where
  "scanClose acc [] = None"
| "scanClose acc (c # cs) =
     (if c = CHR '')'' then Some (acc @ [c], cs)
      else if lineTerminator c then None
      else scanClose (acc @ [c]) cs)"

definition matchGroup :: "string \<Rightarrow> (string \<times> string) option" where
  "matchGroup s =
     (case s of
        c # d # rest \<Rightarrow>
          if c = CHR ''('' \<and> \<not> lineTerminator d then scanClose [c, d] rest else None
      | _ \<Rightarrow> None)"

definition notSlash :: "char \<Rightarrow> bool" where
  "notSlash c \<longleftrightarrow> c \<noteq> CHR ''/''"

text \<open>\<^verbatim>\<open>:[^/]+\<close> and \<^verbatim>\<open>\*[^/]+\<close>: the marker and a non-empty run without a slash.\<close>

definition matchMarked :: "char \<Rightarrow> string \<Rightarrow> (string \<times> string) option" where
  "matchMarked mark s =
     (case s of
        c # rest \<Rightarrow>
          if c = mark \<and> takeWhile notSlash rest \<noteq> []
          then Some (c # takeWhile notSlash rest, dropWhile notSlash rest) else None
      | [] \<Rightarrow> None)"

definition matchLiteral :: "string \<Rightarrow> (string \<times> string) option" where
  "matchLiteral s =
     (if takeWhile notSlash s \<noteq> [] then Some (takeWhile notSlash s, dropWhile notSlash s)
      else None)"

definition matchToken :: "string \<Rightarrow> (string \<times> string) option" where
  "matchToken s =
     (case matchGroup s of Some r \<Rightarrow> Some r
      | None \<Rightarrow>
     (case matchMarked (CHR '':'') s of Some r \<Rightarrow> Some r
      | None \<Rightarrow>
     (case matchMarked (CHR ''*'') s of Some r \<Rightarrow> Some r
      | None \<Rightarrow> matchLiteral s)))"

lemma scanClose_length: "scanClose acc s = Some (tok, rest) \<Longrightarrow> length rest < length s"
  by (induction s arbitrary: acc) (auto split: if_splits intro: less_SucI)

lemma matchToken_length: "matchToken s = Some (tok, rest) \<Longrightarrow> length rest < length s"
proof -
  assume m: "matchToken s = Some (tok, rest)"
  have drop_less: "takeWhile notSlash t \<noteq> [] \<Longrightarrow> length (dropWhile notSlash t) < length t"
    for t :: string
    by (cases t) (auto simp: length_dropWhile_le le_imp_less_Suc split: if_splits)
  have g: "matchGroup s = Some (tok, rest) \<Longrightarrow> length rest < length s"
    by (auto simp: matchGroup_def split: list.splits if_splits dest!: scanClose_length)
  have k: "matchMarked mark s = Some (tok, rest) \<Longrightarrow> length rest < length s" for mark
    by (auto simp: matchMarked_def length_dropWhile_le le_imp_less_Suc
        split: list.splits if_splits)
  have l: "matchLiteral s = Some (tok, rest) \<Longrightarrow> length rest < length s"
    using drop_less [of s] by (auto simp: matchLiteral_def split: if_splits)
  from m g k l show ?thesis
    by (auto simp: matchToken_def split: option.splits)
qed

text \<open>
  The global match: a match is collected and the scan goes on after it; where no
  alternative matches (at a slash) the scan moves one character on. No match at all
  is \<^verbatim>\<open>null\<close>, which \<^verbatim>\<open>|| []\<close> turns into the empty list.
\<close>

function splitPath :: "string \<Rightarrow> string list" where
  "splitPath [] = []"
| "splitPath (c # cs) =
     (case matchToken (c # cs) of
        Some (tok, rest) \<Rightarrow> tok # splitPath rest
      | None \<Rightarrow> splitPath cs)"
  by pat_completeness auto
termination
  by (relation "measure length") (auto dest: matchToken_length)

declare splitPath.simps [simp del]

text \<open>
  \<^verbatim>\<open>createPattern\<close>: three global replacements, each a left-to-right scan, and the anchors
  give the source text \<open>patternSource\<close>, which is handed to \<^verbatim>\<open>new RegExp\<close>. The constructor
  belongs to the platform: it returns an expression or throws a \<^verbatim>\<open>SyntaxError\<close>. Which
  sources it takes is the parameter \<open>accepts\<close> of \<open>createPattern\<close> and of every registration
  below. The router never matches against the expression, so the source stands for it.
  \<open>groupAt\<close> is \<^verbatim>\<open>\/\(([^)]+)\)\<close> at the head of the text, as the captured group and the
  text after the match.
\<close>

definition notClose :: "char \<Rightarrow> bool" where
  "notClose c \<longleftrightarrow> c \<noteq> CHR '')''"

definition groupAt :: "string \<Rightarrow> (string \<times> string) option" where
  "groupAt s =
     (case s of
        c # d # t \<Rightarrow>
          if c = CHR ''/'' \<and> d = CHR ''('' \<and> takeWhile notClose t \<noteq> [] \<and> dropWhile notClose t \<noteq> []
          then Some (takeWhile notClose t, tl (dropWhile notClose t)) else None
      | _ \<Rightarrow> None)"

lemma groupAt_length: "groupAt s = Some (inner, rest) \<Longrightarrow> length rest < length s"
proof -
  have "length (dropWhile notClose t) - Suc 0 < Suc (Suc (length t))" for t :: string
    using length_dropWhile_le [of notClose t] by simp
  then show "groupAt s = Some (inner, rest) \<Longrightarrow> length rest < length s"
    by (auto simp: groupAt_def split: list.splits if_splits)
qed

function replaceGroups :: "string \<Rightarrow> string" where
  "replaceGroups [] = []"
| "replaceGroups (c # cs) =
     (case groupAt (c # cs) of
        Some (inner, rest) \<Rightarrow> ''(?:/'' @ inner @ '')?'' @ replaceGroups rest
      | None \<Rightarrow> c # replaceGroups cs)"
  by pat_completeness auto
termination
  by (relation "measure length") (auto dest: groupAt_length)

text \<open>The class \<^verbatim>\<open>\w\<close>.\<close>

definition wordChar :: "char \<Rightarrow> bool" where
  "wordChar c \<longleftrightarrow>
     (let n = (of_char c :: nat)
      in (48 \<le> n \<and> n \<le> 57) \<or> (65 \<le> n \<and> n \<le> 90) \<or> n = 95 \<or> (97 \<le> n \<and> n \<le> 122))"

text \<open>\<^verbatim>\<open>.replace(/:\w+/g, repl)\<close> and \<^verbatim>\<open>.replace(/\*\w+/g, repl)\<close>, by the marker.\<close>

function replaceMarked :: "char \<Rightarrow> string \<Rightarrow> string \<Rightarrow> string" where
  "replaceMarked mark repl [] = []"
| "replaceMarked mark repl (c # cs) =
     (if c = mark \<and> takeWhile wordChar cs \<noteq> []
      then repl @ replaceMarked mark repl (dropWhile wordChar cs)
      else c # replaceMarked mark repl cs)"
  by pat_completeness auto
termination
  by (relation "measure (\<lambda>(mark, repl, s). length s)")
    (auto simp: length_dropWhile_le le_imp_less_Suc)

definition patternSource :: "string \<Rightarrow> string" where
  "patternSource path =
     ''^'' @ replaceMarked (CHR ''*'') ''(.+?)''
              (replaceMarked (CHR '':'') ''([^/]+)'' (replaceGroups path))
       @ ''(?:'' @ [CHR 0x5C] @ ''?|$)''"

definition createPattern :: "(string \<Rightarrow> bool) \<Rightarrow> string \<Rightarrow> failure + string" where
  "createPattern accepts path =
     (if accepts (patternSource path) then Inr (patternSource path) else Inl SyntaxError)"

section \<open>Registration\<close>

text \<open>
  \<^verbatim>\<open>segment.match(/^:(.+)/)\<close> and \<^verbatim>\<open>segment.match(/^\*(.+)/)\<close>: the capture is the longest
  run after the marker that holds no line terminator, and it is not empty.
\<close>

definition markedName :: "char \<Rightarrow> string \<Rightarrow> string option" where
  "markedName mark segment =
     (case segment of
        c # d # rest \<Rightarrow>
          if c = mark \<and> \<not> lineTerminator d
          then Some (d # takeWhile (\<lambda>x. \<not> lineTerminator x) rest) else None
      | _ \<Rightarrow> None)"

definition paramMatch :: "string \<Rightarrow> string option" where
  "paramMatch segment = markedName (CHR '':'') segment"

definition splatMatch :: "string \<Rightarrow> string option" where
  "splatMatch segment = markedName (CHR ''*'') segment"

text \<open>
  The \<^verbatim>\<open>forEach\<close> of \<^verbatim>\<open>addRoute\<close> (lines 96-119) walks down from the root and creates the
  children that are missing; \<open>fin\<close> is what happens to the node the walk ends on. The
  source updates the nodes in place; here the path from the root is rebuilt.
\<close>

fun addSegments ::
  "string list \<Rightarrow> ('w trie_node \<Rightarrow> 'w trie_node) \<Rightarrow> 'w trie_node \<Rightarrow> 'w trie_node" where
  "addSegments [] fin node = fin node"
| "addSegments (segment # rest) fin node =
     (case paramMatch segment of
        Some name \<Rightarrow>
          (case children node '':param'' of
             None \<Rightarrow> setChild node '':param''
                       (addSegments rest fin (setParamName newTrieNode name))
           | Some child \<Rightarrow> setChild node '':param'' (addSegments rest fin child))
      | None \<Rightarrow>
     (case splatMatch segment of
        Some name \<Rightarrow>
          (case children node ''*splat'' of
             None \<Rightarrow> setChild node ''*splat''
                       (addSegments rest fin (setSplatName newTrieNode name))
           | Some child \<Rightarrow> setChild node ''*splat'' (addSegments rest fin child))
      | None \<Rightarrow>
          (case children node segment of
             None \<Rightarrow> setChild node segment (addSegments rest fin newTrieNode)
           | Some child \<Rightarrow> setChild node segment (addSegments rest fin child))))"

text \<open>
  \<^verbatim>\<open>addRoute\<close> returns the router as the call leaves it and, when \<^verbatim>\<open>createPattern\<close> threw, the
  error: by then the nodes exist and the callback is stored, the pattern and the
  middleware list are not.
\<close>

definition addRoute ::
  "(string \<Rightarrow> bool) \<Rightarrow> 'w router \<Rightarrow> http_method \<Rightarrow> string \<Rightarrow> 'w callback
     \<Rightarrow> 'w middleware list \<Rightarrow> failure option \<times> 'w router" where
  "addRoute accepts r m path cb ms =
     (case createPattern accepts path of
        Inl e \<Rightarrow>
          (Some e,
           r\<lparr> methods := (methods r)
                 (m := addSegments (splitPath path) (setCallback cb) (methods r m)) \<rparr>)
      | Inr pat \<Rightarrow>
          (None,
           r\<lparr> methods := (methods r)
                 (m := addSegments (splitPath path) (setRoute cb pat ms) (methods r m)) \<rparr>))"

definition get ::
  "(string \<Rightarrow> bool) \<Rightarrow> 'w router \<Rightarrow> string \<Rightarrow> 'w callback \<Rightarrow> 'w middleware list
     \<Rightarrow> failure option \<times> 'w router" where
  "get accepts r path cb ms = addRoute accepts r GET path cb ms"

definition post ::
  "(string \<Rightarrow> bool) \<Rightarrow> 'w router \<Rightarrow> string \<Rightarrow> 'w callback \<Rightarrow> 'w middleware list
     \<Rightarrow> failure option \<times> 'w router" where
  "post accepts r path cb ms = addRoute accepts r POST path cb ms"





section \<open>Dispatch\<close>

subsection \<open>Platform operations used by \<open>route\<close>\<close>

text \<open>\<^verbatim>\<open>String.prototype.startsWith\<close>.\<close>

definition startsWith :: "string \<Rightarrow> string \<Rightarrow> bool" where
  "startsWith s p \<longleftrightarrow> take (length p) s = p"

text \<open>\<^verbatim>\<open>String.prototype.toUpperCase\<close>, on the ASCII letters a method name is made of.\<close>

definition upperChar :: "char \<Rightarrow> char" where
  "upperChar c =
     (let n = (of_char c :: nat) in if 97 \<le> n \<and> n \<le> 122 then char_of (n - 32) else c)"

definition toUpperCase :: "string \<Rightarrow> string" where
  "toUpperCase s = map upperChar s"

text \<open>\<^verbatim>\<open>this.methods.get(name)\<close>: the map holds the six methods and nothing else.\<close>

definition methodNamed :: "string \<Rightarrow> http_method option" where
  "methodNamed name =
     (if name = ''GET'' then Some GET
      else if name = ''POST'' then Some POST
      else if name = ''PUT'' then Some PUT
      else if name = ''DELETE'' then Some DELETE
      else if name = ''PATCH'' then Some PATCH
      else if name = ''OPTIONS'' then Some OPTIONS
      else None)"

text \<open>\<^verbatim>\<open>s.split("/")\<close>, then \<^verbatim>\<open>.filter(Boolean)\<close>, which drops the empty pieces.\<close>

fun splitOn :: "char \<Rightarrow> string \<Rightarrow> string list" where
  "splitOn sep [] = [[]]"
| "splitOn sep (c # cs) =
     (if c = sep then [] # splitOn sep cs
      else (case splitOn sep cs of
              piece # pieces \<Rightarrow> (c # piece) # pieces
            | [] \<Rightarrow> [[c]]))"

definition pathSegments :: "string \<Rightarrow> string list" where
  "pathSegments pathname = filter (\<lambda>piece. piece \<noteq> []) (splitOn (CHR ''/'') pathname)"

text \<open>\<^verbatim>\<open>Array.prototype.indexOf\<close>: the first index that holds the value, or \<open>-1\<close>.\<close>

fun indexOf :: "'a list \<Rightarrow> 'a \<Rightarrow> int" where
  "indexOf [] x = -1"
| "indexOf (y # ys) x =
     (if y = x then 0 else (let i = indexOf ys x in if i < 0 then -1 else i + 1))"

text \<open>\<^verbatim>\<open>Array.prototype.slice(start)\<close>: a negative start counts from the end.\<close>

definition slice :: "'a list \<Rightarrow> int \<Rightarrow> 'a list" where
  "slice xs start =
     (if start < 0 then drop (length xs - nat (- start)) xs else drop (nat start) xs)"

text \<open>\<^verbatim>\<open>Array.prototype.join(sep)\<close>.\<close>

fun join :: "string \<Rightarrow> string list \<Rightarrow> string" where
  "join sep [] = []"
| "join sep [x] = x"
| "join sep (x # y # ys) = x @ sep @ join sep (y # ys)"

text \<open>
  The body readers. A body is read once: a reader called when \<^verbatim>\<open>bodyUsed\<close> already holds
  rejects with a \<^verbatim>\<open>TypeError\<close>, and every reader sets \<^verbatim>\<open>bodyUsed\<close>. \<^verbatim>\<open>req_form\<close> is the entry
  list of \<^verbatim>\<open>new URLSearchParams(await request.text())\<close>.
\<close>

definition requestJson :: "request \<Rightarrow> 'w rstate \<Rightarrow> (failure + jsval) \<times> 'w rstate" where
  "requestJson req s =
     (if bodyUsed s then (Inl TypeError, s)
      else (case req_json req of
              None \<Rightarrow> (Inl SyntaxError, s\<lparr> bodyUsed := True \<rparr>)
            | Some v \<Rightarrow> (Inr v, s\<lparr> bodyUsed := True \<rparr>)))"

definition requestText ::
  "request \<Rightarrow> 'w rstate \<Rightarrow> (failure + (string \<times> string) list) \<times> 'w rstate" where
  "requestText req s =
     (if bodyUsed s then (Inl TypeError, s)
      else (Inr (req_form req), s\<lparr> bodyUsed := True \<rparr>))"

definition requestFormData ::
  "request \<Rightarrow> 'w rstate \<Rightarrow> (failure + (string \<times> jsval) list) \<times> 'w rstate" where
  "requestFormData req s =
     (if bodyUsed s then (Inl TypeError, s)
      else (case req_multipart req of
              None \<Rightarrow> (Inl TypeError, s\<lparr> bodyUsed := True \<rparr>)
            | Some parts \<Rightarrow> (Inr parts, s\<lparr> bodyUsed := True \<rparr>)))"

text \<open>Decimal digits of a natural number, for the index keys of \<^verbatim>\<open>Object.entries\<close>.\<close>

fun digitsOf :: "nat \<Rightarrow> nat \<Rightarrow> string" where
  "digitsOf 0 n = []"
| "digitsOf (Suc fuel) n =
     (if n < 10 then [char_of (48 + n)]
      else digitsOf fuel (n div 10) @ [char_of (48 + n mod 10)])"

definition showNat :: "nat \<Rightarrow> string" where
  "showNat n = digitsOf (Suc n) n"

text \<open>
  \<^verbatim>\<open>Object.entries(body)\<close> of a parsed JSON value: the members of an object, the indexed
  elements of an array or of a string, nothing for a number or a boolean, and a
  \<^verbatim>\<open>TypeError\<close> for \<^verbatim>\<open>null\<close>.
\<close>

definition indexed :: "'a list \<Rightarrow> (string \<times> 'a) list" where
  "indexed xs = zip (map showNat [0 ..< length xs]) xs"

definition objectEntries :: "jsval \<Rightarrow> failure + (string \<times> jsval) list" where
  "objectEntries v =
     (case v of
        JNull \<Rightarrow> Inl TypeError
      | JBool b \<Rightarrow> Inr []
      | JNum n \<Rightarrow> Inr []
      | JStr s \<Rightarrow> Inr (indexed (map (\<lambda>c. JStr [c]) s))
      | JArr xs \<Rightarrow> Inr (indexed xs)
      | JObj members \<Rightarrow> Inr members)"

text \<open>The loops \<^verbatim>\<open>for (const [key, value] of ...) params[key] = value\<close>.\<close>

definition assignAll :: "(string \<times> jsval) list \<Rightarrow> pobject \<Rightarrow> pobject" where
  "assignAll entries obj = fold (\<lambda>(key, v) target. setProperty target key v) entries obj"

definition stringEntries :: "(string \<times> string) list \<Rightarrow> (string \<times> jsval) list" where
  "stringEntries entries = map (\<lambda>(key, v). (key, JStr v)) entries"

subsection \<open>Query and body (lines 175-197)\<close>

definition populateParams :: "request \<Rightarrow> 'w rstate \<Rightarrow> (failure + unit) \<times> 'w rstate" where
  "populateParams req s =
     (if req_method req = ''GET''
      then (Inr (), s\<lparr> params := assignAll (stringEntries (req_query req)) (params s) \<rparr>)
      else (case req_contentType req of
              None \<Rightarrow> (Inr (), s)
            | Some ct \<Rightarrow>
                if startsWith ct ''application/json'' then
                  (case requestJson req s of
                     (Inl e, s1) \<Rightarrow> (Inl e, s1)
                   | (Inr v, s1) \<Rightarrow>
                       (case objectEntries v of
                          Inl e \<Rightarrow> (Inl e, s1)
                        | Inr entries \<Rightarrow>
                            (Inr (), s1\<lparr> params := assignAll entries (params s1) \<rparr>)))
                else if startsWith ct ''application/x-www-form-urlencoded'' then
                  (case requestText req s of
                     (Inl e, s1) \<Rightarrow> (Inl e, s1)
                   | (Inr entries, s1) \<Rightarrow>
                       (Inr (), s1\<lparr> params := assignAll (stringEntries entries) (params s1) \<rparr>))
                else if startsWith ct ''multipart/form-data'' then
                  (case requestFormData req s of
                     (Inl e, s1) \<Rightarrow> (Inl e, s1)
                   | (Inr parts, s1) \<Rightarrow>
                       (Inr (), s1\<lparr> params := assignAll parts (params s1) \<rparr>))
                else (Inr (), s)))"

subsection \<open>The trie walk (lines 199-212)\<close>

text \<open>
  A property access with an undefined key reads the key \<^verbatim>\<open>"undefined"\<close>.
\<close>

definition keyOf :: "string option \<Rightarrow> string" where
  "keyOf name = (case name of None \<Rightarrow> ''undefined'' | Some n \<Rightarrow> n)"

text \<open>
  \<open>walk pathname segments node ps\<close> is the loop from the segment list \<open>segments\<close> on,
  at \<open>node\<close>, with the parameters \<open>ps\<close> so far; \<open>pathname\<close> is the whole list, which
  the splat branch searches. \<open>None\<close> is the \<^verbatim>\<open>return this.send404()\<close> inside the loop.
  The earlier draft of the router (its \<^verbatim>\<open>route\<close> without middlewares) has the same loop.
\<close>

fun walk ::
  "string list \<Rightarrow> string list \<Rightarrow> 'w trie_node \<Rightarrow> pobject
     \<Rightarrow> ('w trie_node \<times> pobject) option" where
  "walk pathname [] node ps = Some (node, ps)"
| "walk pathname (segment # rest) node ps =
     (case children node segment of
        Some child \<Rightarrow> walk pathname rest child ps
      | None \<Rightarrow>
     (case children node '':param'' of
        Some child \<Rightarrow>
          walk pathname rest child (setProperty ps (keyOf (paramName child)) (JStr segment))
      | None \<Rightarrow>
     (case children node ''*splat'' of
        Some child \<Rightarrow>
          Some (child,
            setProperty ps (keyOf (splatName child))
              (JStr (join ''/'' (slice pathname (indexOf pathname segment)))))
      | None \<Rightarrow> None)))"

subsection \<open>The middleware chain (lines 214-243)\<close>

definition send404 :: response where
  "send404 = \<lparr> status = 404, body = ''Not found'' \<rparr>"

definition handleRoute :: "'w trie_node \<Rightarrow> request \<Rightarrow> 'w comp" where
  "handleRoute node req s =
     (case callback node of
        Some cb \<Rightarrow> cb req s
      | None \<Rightarrow> (Inr send404, s))"

function executeRouteMiddlewares :: "'w trie_node \<Rightarrow> request \<Rightarrow> nat \<Rightarrow> 'w comp" where
  "executeRouteMiddlewares node req index =
     (if index \<ge> length (middlewares node) then handleRoute node req
      else (middlewares node ! index) req (executeRouteMiddlewares node req (index + 1)))"
  by pat_completeness auto
termination
  by (relation "measure (\<lambda>(node, req, index). length (middlewares node) - index)") auto

declare executeRouteMiddlewares.simps [simp del]

function executeGlobalMiddlewares ::
  "'w router \<Rightarrow> 'w trie_node \<Rightarrow> request \<Rightarrow> nat \<Rightarrow> 'w comp" where
  "executeGlobalMiddlewares r node req index =
     (if index \<ge> length (globalMiddlewares r) then executeRouteMiddlewares node req 0
      else (globalMiddlewares r ! index) req (executeGlobalMiddlewares r node req (index + 1)))"
  by pat_completeness auto
termination
  by (relation "measure (\<lambda>(r, node, req, index). length (globalMiddlewares r) - index)") auto

declare executeGlobalMiddlewares.simps [simp del]

subsection \<open>\<open>route\<close>\<close>

text \<open>
  The state a call of \<^verbatim>\<open>route\<close> starts in: \<^verbatim>\<open>const params = {}\<close> and a request whose body
  has not been read.
\<close>

definition freshState :: "'w \<Rightarrow> 'w rstate" where
  "freshState w = \<lparr> params = emptyObject, bodyUsed = False, world = w \<rparr>"

definition route :: "'w router \<Rightarrow> request \<Rightarrow> 'w \<Rightarrow> (failure + response) \<times> 'w rstate" where
  "route r req w =
     (let pathname = pathSegments (req_pathname req); s0 = freshState w
      in case methodNamed (toUpperCase (req_method req)) of
           None \<Rightarrow> (Inr send404, s0)
         | Some m \<Rightarrow>
             (case populateParams req s0 of
                (Inl e, s1) \<Rightarrow> (Inl e, s1)
              | (Inr u, s1) \<Rightarrow>
                  (case walk pathname pathname (methods r m) (params s1) of
                     None \<Rightarrow> (Inr send404, s1)
                   | Some (node, ps) \<Rightarrow>
                       executeGlobalMiddlewares r node req 0 (s1\<lparr> params := ps \<rparr>))))"

section \<open>Controllers\<close>

text \<open>
  \<^verbatim>\<open>interface Controller\<close>: each operation is optional, and a present one is a handler.
\<close>

record 'w controller =
  c_index :: "'w callback option"
  c_show :: "'w callback option"
  c_create :: "'w callback option"
  c_update :: "'w callback option"
  c_delete :: "'w callback option"
  c_patch :: "'w callback option"
  c_options :: "'w callback option"

text \<open>
  A registration that throws ends the function that made it: the steps after it do not
  run and the error passes on to the caller.
\<close>

definition andThen ::
  "failure option \<times> 'w router \<Rightarrow> ('w router \<Rightarrow> failure option \<times> 'w router)
     \<Rightarrow> failure option \<times> 'w router" where
  "andThen result step =
     (case result of
        (Some e, r) \<Rightarrow> (Some e, r)
      | (None, r) \<Rightarrow> step r)"


text \<open>
  The double nearest to a positive integer, ties to the even significand; \<open>None\<close> when
  it is beyond the largest double.
\<close>

function bitLength :: "int \<Rightarrow> nat" where
  "bitLength n = (if n \<le> 0 then 0 else Suc (bitLength (n div 2)))"
  by pat_completeness auto
termination
  by (relation "measure nat") auto

declare bitLength.simps [simp del]

definition toDouble :: "int \<Rightarrow> int option" where
  "toDouble n =
     (if n < 2 ^ 53 then Some n
      else (let e = bitLength n - 53;
                q = n div 2 ^ e;
                r = n mod 2 ^ e;
                half = 2 ^ (e - 1);
                q1 = (if r > half \<or> (r = half \<and> odd q) then q + 1 else q);
                v = q1 * 2 ^ e
            in if 1024 < bitLength v then None else Some v))"

text \<open>
  \<^verbatim>\<open>parseInt\<close> without a radix: leading white space, a sign, an optional \<^verbatim>\<open>0x\<close>, then the
  longest run of digits, whose value is rounded to a double. No digit gives \<^verbatim>\<open>NaN\<close>.
\<close>

definition jsWhite :: "char \<Rightarrow> bool" where
  "jsWhite c \<longleftrightarrow> (let n = (of_char c :: nat) in (9 \<le> n \<and> n \<le> 13) \<or> n = 32 \<or> n = 160)"

definition digitValue :: "char \<Rightarrow> int" where
  "digitValue c =
     (let n = (of_char c :: int)
      in if 48 \<le> n \<and> n \<le> 57 then n - 48
         else if 97 \<le> n \<and> n \<le> 122 then n - 87
         else if 65 \<le> n \<and> n \<le> 90 then n - 55
         else 36)"

definition parseInt :: "string \<Rightarrow> jsnum" where
  "parseInt text =
     (let t = dropWhile jsWhite text;
          negative = (case t of c # u \<Rightarrow> c = CHR ''-'' | [] \<Rightarrow> False);
          t1 = (case t of c # u \<Rightarrow> if c = CHR ''-'' \<or> c = CHR ''+'' then u else t | [] \<Rightarrow> t);
          hex = (startsWith t1 ''0x'' \<or> startsWith t1 ''0X'');
          radix = (if hex then 16 else 10);
          t2 = (if hex then drop 2 t1 else t1);
          ds = takeWhile (\<lambda>c. digitValue c < radix) t2;
          n = fold (\<lambda>c acc. acc * radix + digitValue c) ds 0
      in if ds = [] then NaN
         else if n = 0 then (if negative then NegativeZero else Finite 0)
         else (case toDouble n of
                 None \<Rightarrow> if negative then NegativeInfinity else Infinity
               | Some v \<Rightarrow> if negative then Finite (- v) else Finite v))"

text \<open>
  \<^verbatim>\<open>String(v)\<close>, which \<^verbatim>\<open>parseInt\<close> applies to its argument. An array is the texts of its
  elements joined by commas, \<^verbatim>\<open>null\<close> among them being empty. An object is
  \<^verbatim>\<open>"[object Object]"\<close>, by \<^verbatim>\<open>Object.prototype.toString\<close>, unless it has a member \<^verbatim>\<open>toString\<close> of
  its own: a JSON value is not callable, and the conversion throws a \<^verbatim>\<open>TypeError\<close>.
\<close>

fun jsToString :: "jsval \<Rightarrow> failure + string"
  and elementsText :: "jsval list \<Rightarrow> failure + string" where
  "jsToString JNull = Inr ''null''"
| "jsToString (JBool b) = Inr (if b then ''true'' else ''false'')"
| "jsToString (JNum text) = Inr text"
| "jsToString (JStr s) = Inr s"
| "jsToString (JArr xs) = elementsText xs"
| "jsToString (JObj members) =
     (if ''toString'' \<in> fst ` set members then Inl TypeError else Inr ''[object Object]'')"
| "elementsText [] = Inr []"
| "elementsText (x # xs) =
     (case (if x = JNull then Inr [] else jsToString x) of
        Inl e \<Rightarrow> Inl e
      | Inr t \<Rightarrow>
          if xs = [] then Inr t
          else (case elementsText xs of
                  Inl e \<Rightarrow> Inl e
                | Inr u \<Rightarrow> Inr (t @ '','' @ u)))"

text \<open>The text of a property that may be absent: \<^verbatim>\<open>String(undefined)\<close> is \<^verbatim>\<open>"undefined"\<close>.\<close>

definition propertyText :: "jsval option \<Rightarrow> failure + string" where
  "propertyText v = (case v of None \<Rightarrow> Inr ''undefined'' | Some x \<Rightarrow> jsToString x)"

text \<open>
  The read \<^verbatim>\<open>params.id\<close>: the own property, else the member \<^verbatim>\<open>id\<close> of a JSON object
  installed as prototype. Arrays, \<^verbatim>\<open>Array.prototype\<close> and \<^verbatim>\<open>Object.prototype\<close> have no property
  of that name.
\<close>

definition readId :: "pobject \<Rightarrow> jsval option" where
  "readId obj =
     (case own obj ''id'' of
        Some v \<Rightarrow> Some v
      | None \<Rightarrow>
          (case inherits obj of
             ValuePrototype (JObj members) \<Rightarrow> map_of members ''id''
           | _ \<Rightarrow> None))"

text \<open>
  \<^verbatim>\<open>interface ModelController<T extends Model>\<close> of \<^verbatim>\<open>src/ModelController.ts\<close>. The class
  \<^verbatim>\<open>Model\<close> is not among the sources, so \<^verbatim>\<open>controller.model.find\<close> is a field of the
  record: it gets the parsed number and yields an entity or \<^verbatim>\<open>undefined\<close>. An entity is an
  object, so \<^verbatim>\<open>if (model)\<close> tests that one was found. \<^verbatim>\<open>create\<close> receives the parsed JSON body
  as it is (the cast \<^verbatim>\<open>as T\<close> does nothing at run time).
\<close>

record ('w, 'e) modelController =
  mc_find :: "jsnum \<Rightarrow> 'w rstate \<Rightarrow> (failure + 'e option) \<times> 'w rstate"
  mc_index :: "'w callback option"
  mc_show :: "(request \<Rightarrow> 'e \<Rightarrow> 'w comp) option"
  mc_create :: "(request \<Rightarrow> jsval \<Rightarrow> 'w comp) option"
  mc_update :: "(request \<Rightarrow> 'e \<Rightarrow> 'w comp) option"
  mc_delete :: "(request \<Rightarrow> 'e \<Rightarrow> 'w comp) option"
  mc_patch :: "(request \<Rightarrow> 'e \<Rightarrow> 'w comp) option"
  mc_options :: "(request \<Rightarrow> 'e \<Rightarrow> 'w comp) option"

text \<open>The handler that \<^verbatim>\<open>mapModelController\<close> registers for \<^verbatim>\<open>show\<close> (lines 254-261).\<close>

definition showHandler ::
  "('w, 'e) modelController \<Rightarrow> (request \<Rightarrow> 'e \<Rightarrow> 'w comp) \<Rightarrow> 'w callback" where
  "showHandler controller sh req s =
     (case propertyText (readId (params s)) of
        Inl e \<Rightarrow> (Inl e, s)
      | Inr text \<Rightarrow>
          (case mc_find controller (parseInt text) s of
             (Inl e, s1) \<Rightarrow> (Inl e, s1)
           | (Inr (Some model), s1) \<Rightarrow> sh req model s1
           | (Inr None, s1) \<Rightarrow> (Inr send404, s1)))"

text \<open>The handler that it registers for \<^verbatim>\<open>create\<close> (lines 265-271).\<close>

definition unsupportedMediaType :: response where
  "unsupportedMediaType = \<lparr> status = 415, body = ''Unsupported Media Type'' \<rparr>"

definition createHandler :: "(request \<Rightarrow> jsval \<Rightarrow> 'w comp) \<Rightarrow> 'w callback" where
  "createHandler cr req s =
     (if req_contentType req = Some ''application/json''
      then (case requestJson req s of
              (Inl e, s1) \<Rightarrow> (Inl e, s1)
            | (Inr v, s1) \<Rightarrow> cr req v s1)
      else (Inr unsupportedMediaType, s))"

definition mapModelController ::
  "(string \<Rightarrow> bool) \<Rightarrow> 'w router \<Rightarrow> string \<Rightarrow> ('w, 'e) modelController
     \<Rightarrow> 'w middleware list \<Rightarrow> failure option \<times> 'w router" where
  "mapModelController accepts r path controller ms =
     andThen (andThen
       (case mc_index controller of Some h \<Rightarrow> get accepts r path h ms | None \<Rightarrow> (None, r))
       (\<lambda>r1. case mc_show controller of
                Some sh \<Rightarrow> get accepts r1 (path @ ''/:id'') (showHandler controller sh) ms
              | None \<Rightarrow> (None, r1)))
       (\<lambda>r2. case mc_create controller of
                Some cr \<Rightarrow> post accepts r2 path (createHandler cr) ms
              | None \<Rightarrow> (None, r2))"

section \<open>Observing a router\<close>

text \<open>
  The key under which the registration loop files a segment: the value of the loop
  variable \<^verbatim>\<open>segment\<close> when line 118 reads \<^verbatim>\<open>node.children.get(segment)\<close>.
\<close>

definition segKey :: "string \<Rightarrow> string" where
  "segKey segment =
     (case paramMatch segment of
        Some name \<Rightarrow> '':param''
      | None \<Rightarrow> (case splatMatch segment of Some name \<Rightarrow> ''*splat'' | None \<Rightarrow> segment))"

text \<open>The node a chain of keys leads to: \<^verbatim>\<open>node.children.get(k1).children.get(k2)...\<close>.\<close>

fun nodeAt :: "string list \<Rightarrow> 'w trie_node \<Rightarrow> 'w trie_node option" where
  "nodeAt [] node = Some node"
| "nodeAt (key # keys) node =
     (case children node key of None \<Rightarrow> None | Some child \<Rightarrow> nodeAt keys child)"

text \<open>The child a segment continues in: the one that is there, or the one line 103, 110 or 115 creates.\<close>

definition createdChild :: "string \<Rightarrow> 'w trie_node" where
  "createdChild segment =
     (case paramMatch segment of
        Some name \<Rightarrow> setParamName newTrieNode name
      | None \<Rightarrow>
          (case splatMatch segment of
             Some name \<Rightarrow> setSplatName newTrieNode name
           | None \<Rightarrow> newTrieNode))"

definition nextChild :: "string \<Rightarrow> 'w trie_node \<Rightarrow> 'w trie_node" where
  "nextChild segment node =
     (case children node (segKey segment) of
        Some child \<Rightarrow> child
      | None \<Rightarrow> createdChild segment)"

text \<open>What the end of a registration may do to a node: it leaves the children and the names alone.\<close>

definition keepsNames :: "('w trie_node \<Rightarrow> 'w trie_node) \<Rightarrow> bool" where
  "keepsNames fin \<longleftrightarrow>
     (\<forall>n. children (fin n) = children n \<and> paramName (fin n) = paramName n
          \<and> splatName (fin n) = splatName n)"

text \<open>
  What the lines 121-123 have done to the last node when \<^verbatim>\<open>addRoute\<close> is left, normally or by
  the error of line 122.
\<close>

definition lastAssignments ::
  "(string \<Rightarrow> bool) \<Rightarrow> string \<Rightarrow> 'w callback \<Rightarrow> 'w middleware list
     \<Rightarrow> 'w trie_node \<Rightarrow> 'w trie_node" where
  "lastAssignments accepts path cb ms =
     (if accepts (patternSource path) then setRoute cb (patternSource path) ms
      else setCallback cb)"

text \<open>
  The course of the trie walk of \<^verbatim>\<open>route\<close> (lines 199-212) through a trie: the keys of the
  children it follows, and the assignments to \<^verbatim>\<open>params\<close> it makes, in order. \<open>None\<close> is the
  \<^verbatim>\<open>return this.send404()\<close> inside the loop.
\<close>

fun trace ::
  "string list \<Rightarrow> string list \<Rightarrow> 'w trie_node
     \<Rightarrow> (string list \<times> (string \<times> jsval) list) option" where
  "trace pathname [] node = Some ([], [])"
| "trace pathname (segment # rest) node =
     (case children node segment of
        Some child \<Rightarrow>
          map_option (\<lambda>(keys, writes). (segment # keys, writes)) (trace pathname rest child)
      | None \<Rightarrow>
     (case children node '':param'' of
        Some child \<Rightarrow>
          map_option
            (\<lambda>(keys, writes).
               ('':param'' # keys, (keyOf (paramName child), JStr segment) # writes))
            (trace pathname rest child)
      | None \<Rightarrow>
     (case children node ''*splat'' of
        Some child \<Rightarrow>
          Some ([''*splat''],
                [(keyOf (splatName child),
                  JStr (join ''/'' (slice pathname (indexOf pathname segment))))])
      | None \<Rightarrow> None)))"

text \<open>
  The nested continuations of a list of middlewares around a last stage: the first
  middleware gets the rest of the list as its continuation.
\<close>

definition chain :: "'w middleware list \<Rightarrow> request \<Rightarrow> 'w comp \<Rightarrow> 'w comp" where
  "chain ms req final = foldr (\<lambda>mw next. mw req next) ms final"

subsection \<open>A constructor for the instances\<close>

text \<open>
  In the instances below \<open>groupsClosed\<close> stands for \<^verbatim>\<open>new RegExp\<close>. It refuses a source that ends
  inside an escape, a class or a group, or closes a group that is not open, all of which the
  constructor refuses; the sources it takes below are expressions the constructor takes.
\<close>

fun scanGroups :: "nat \<Rightarrow> bool \<Rightarrow> string \<Rightarrow> bool" where
  "scanGroups depth inClass [] \<longleftrightarrow> depth = 0 \<and> \<not> inClass"
| "scanGroups depth inClass [c] \<longleftrightarrow>
     (if c = CHR 0x5C then False
      else if inClass then c = CHR '']'' \<and> depth = 0
      else if c = CHR ''['' \<or> c = CHR ''('' then False
      else if c = CHR '')'' then depth = 1
      else depth = 0)"
| "scanGroups depth inClass (c # d # rest) \<longleftrightarrow>
     (if c = CHR 0x5C then scanGroups depth inClass rest
      else if inClass then scanGroups depth (c \<noteq> CHR '']'') (d # rest)
      else if c = CHR ''['' then scanGroups depth True (d # rest)
      else if c = CHR ''('' then scanGroups (depth + 1) False (d # rest)
      else if c = CHR '')'' then depth > 0 \<and> scanGroups (depth - 1) False (d # rest)
      else scanGroups depth False (d # rest))"

definition groupsClosed :: "string \<Rightarrow> bool" where
  "groupsClosed source = scanGroups 0 False source"

subsection \<open>Handlers, middlewares and requests for the instances\<close>

definition respond :: "nat \<Rightarrow> string \<Rightarrow> 'w callback" where
  "respond code text req s = (Inr \<lparr> status = code, body = text \<rparr>, s)"

text \<open>
  Handlers that answer with the text of own properties of \<^verbatim>\<open>params\<close>, joined by commas.
\<close>

fun ownTexts :: "pobject \<Rightarrow> string list \<Rightarrow> failure + string list" where
  "ownTexts obj [] = Inr []"
| "ownTexts obj (key # keys) =
     (case propertyText (own obj key) of
        Inl e \<Rightarrow> Inl e
      | Inr t \<Rightarrow> (case ownTexts obj keys of Inl e \<Rightarrow> Inl e | Inr ts \<Rightarrow> Inr (t # ts)))"

definition echoParams :: "string list \<Rightarrow> 'w callback" where
  "echoParams keys req s =
     (case ownTexts (params s) keys of
        Inl e \<Rightarrow> (Inl e, s)
      | Inr ts \<Rightarrow> (Inr \<lparr> status = 200, body = join '','' ts \<rparr>, s))"

definition echoParam :: "string \<Rightarrow> 'w callback" where
  "echoParam key = echoParams [key]"

definition getRequest :: "string \<Rightarrow> (string \<times> string) list \<Rightarrow> request" where
  "getRequest path query =
     \<lparr> req_method = ''GET'', req_pathname = path, req_query = query, req_contentType = None,
       req_json = None, req_form = [], req_multipart = None \<rparr>"

definition jsonRequest :: "string \<Rightarrow> string \<Rightarrow> string \<Rightarrow> jsval \<Rightarrow> request" where
  "jsonRequest m path ct v =
     \<lparr> req_method = m, req_pathname = path, req_query = [], req_contentType = Some ct,
       req_json = Some v, req_form = [], req_multipart = None \<rparr>"


text \<open>A middleware that returns a response without invoking its continuation.\<close>

definition halt :: "nat \<Rightarrow> string \<Rightarrow> 'w middleware" where
  "halt code text req next s = (Inr \<lparr> status = code, body = text \<rparr>, s)"

text \<open>
  Observation of a run: the first component of the world is a journal, to which a
  recorded middleware or handler appends its name each time it is invoked.
\<close>

definition journal :: "(string list \<times> 'u) rstate \<Rightarrow> string list" where
  "journal s = fst (world s)"

definition recordCall :: "string \<Rightarrow> (string list \<times> 'u) rstate \<Rightarrow> (string list \<times> 'u) rstate" where
  "recordCall name s = s\<lparr> world := (fst (world s) @ [name], snd (world s)) \<rparr>"

definition recorded ::
  "string \<Rightarrow> (string list \<times> 'u) middleware \<Rightarrow> (string list \<times> 'u) middleware" where
  "recorded name mw req next s = mw req next (recordCall name s)"

definition recordedHandler ::
  "string \<Rightarrow> (string list \<times> 'u) callback \<Rightarrow> (string list \<times> 'u) callback" where
  "recordedHandler name cb req s = cb req (recordCall name s)"

text \<open>A middleware that returns what its continuation returns.\<close>

definition passOn :: "'w middleware" where
  "passOn req next s = next s"

text \<open>A middleware that awaits its continuation and then returns a response of its own.\<close>

definition replaceResponse :: "nat \<Rightarrow> string \<Rightarrow> 'w middleware" where
  "replaceResponse code text req next s =
     (case next s of (result, s1) \<Rightarrow> (Inr \<lparr> status = code, body = text \<rparr>, s1))"

text \<open>A middleware that invokes its continuation twice.\<close>

definition callTwice :: "'w middleware" where
  "callTwice req next s = (case next s of (result, s1) \<Rightarrow> next s1)"

text \<open>
  The middlewares that invoke their continuation at most once: \<open>before\<close> runs first
  and either ends the request itself (\<open>Inl\<close>) or goes on (\<open>Inr\<close>); then the continuation
  is invoked once, and \<open>after\<close> turns its result into the result of the middleware.
\<close>

definition atMostOnce ::
  "(request \<Rightarrow> 'w rstate \<Rightarrow> ((failure + response) + 'y) \<times> 'w rstate)
   \<Rightarrow> (request \<Rightarrow> 'y \<Rightarrow> (failure + response) \<Rightarrow> 'w comp)
   \<Rightarrow> 'w middleware" where
  "atMostOnce before after req next s =
     (case before req s of
        (Inl result, s1) \<Rightarrow> (result, s1)
      | (Inr y, s1) \<Rightarrow> (case next s1 of (result, s2) \<Rightarrow> after req y result s2))"

definition tracked ::
  "string \<times> (request \<Rightarrow> (string list \<times> 'u) rstate
               \<Rightarrow> ((failure + response) + 'y) \<times> (string list \<times> 'u) rstate)
          \<times> (request \<Rightarrow> 'y \<Rightarrow> (failure + response) \<Rightarrow> (string list \<times> 'u) comp)
   \<Rightarrow> (string list \<times> 'u) middleware" where
  "tracked spec = (case spec of (name, before, after) \<Rightarrow> recorded name (atMostOnce before after))"

definition keepsJournal :: "(string list \<times> 'u) comp \<Rightarrow> bool" where
  "keepsJournal k \<longleftrightarrow> (\<forall>s. journal (snd (k s)) = journal s)"

definition quiet ::
  "string \<times> (request \<Rightarrow> (string list \<times> 'u) rstate
               \<Rightarrow> ((failure + response) + 'y) \<times> (string list \<times> 'u) rstate)
          \<times> (request \<Rightarrow> 'y \<Rightarrow> (failure + response) \<Rightarrow> (string list \<times> 'u) comp)
   \<Rightarrow> bool" where
  "quiet spec \<longleftrightarrow>
     (case spec of (name, before, after) \<Rightarrow>
        (\<forall>req s. journal (snd (before req s)) = journal s)
      \<and> (\<forall>req y result s. journal (snd (after req y result s)) = journal s))"

text \<open>
  A stage that enters the positions of a chain in order, each at most once: what it adds to
  the journal is the names of the first \<open>n\<close> positions, for some \<open>n\<close>.
\<close>

definition entersInOrder :: "string list \<Rightarrow> (string list \<times> 'u) comp \<Rightarrow> bool" where
  "entersInOrder names k \<longleftrightarrow>
     (\<forall>s. \<exists>n. n \<le> length names \<and> journal (snd (k s)) = journal s @ take n names)"

definition sampleRouter ::
  "'w middleware list \<Rightarrow> 'w middleware list \<Rightarrow> 'w callback \<Rightarrow> 'w router" where
  "sampleRouter globals locals h =
     foldl use (snd (get groupsClosed newRouter ''/ping'' h locals)) globals"

text \<open>
  The two halves of a middleware that invokes its continuation at most once, for the
  instances: going on or answering at once, and handing the continuation's result back.
\<close>

definition goOn :: "request \<Rightarrow> 'w rstate \<Rightarrow> ((failure + response) + unit) \<times> 'w rstate" where
  "goOn req s = (Inr (), s)"

definition answer ::
  "nat \<Rightarrow> string \<Rightarrow> request \<Rightarrow> 'w rstate \<Rightarrow> ((failure + response) + unit) \<times> 'w rstate" where
  "answer code text req s = (Inl (Inr \<lparr> status = code, body = text \<rparr>), s)"

definition giveBack :: "request \<Rightarrow> unit \<Rightarrow> (failure + response) \<Rightarrow> 'w comp" where
  "giveBack req y result s = (result, s)"

text \<open>
  A model controller like the one of \<^verbatim>\<open>src/index.ts\<close>: ten users with the ids 1 to 10.
  \<open>find\<close> records the number it is called with, \<open>show\<close> and \<open>create\<close> that they were invoked.
\<close>

definition showInt :: "int \<Rightarrow> string" where
  "showInt i = (if i < 0 then CHR ''-'' # showNat (nat (- i)) else showNat (nat i))"

definition numberText :: "jsnum \<Rightarrow> string" where
  "numberText n =
     (case n of
        NaN \<Rightarrow> ''NaN''
      | Finite i \<Rightarrow> showInt i
      | NegativeZero \<Rightarrow> ''-0''
      | Infinity \<Rightarrow> ''Infinity''
      | NegativeInfinity \<Rightarrow> ''-Infinity'')"

definition sampleFind ::
  "jsnum \<Rightarrow> (string list \<times> unit) rstate
     \<Rightarrow> (failure + string option) \<times> (string list \<times> unit) rstate" where
  "sampleFind key s =
     (Inr (case key of
             Finite i \<Rightarrow> if 1 \<le> i \<and> i \<le> 10 then Some (''User '' @ showInt (i - 1)) else None
           | _ \<Rightarrow> None),
      recordCall (''find '' @ numberText key) s)"

definition sampleShow :: "request \<Rightarrow> string \<Rightarrow> (string list \<times> unit) comp" where
  "sampleShow req user s = (Inr \<lparr> status = 200, body = user \<rparr>, recordCall ''show'' s)"

definition sampleCreate :: "request \<Rightarrow> jsval \<Rightarrow> (string list \<times> unit) comp" where
  "sampleCreate req v s =
     (case jsToString v of
        Inl e \<Rightarrow> (Inl e, recordCall ''create'' s)
      | Inr text \<Rightarrow> (Inr \<lparr> status = 201, body = text \<rparr>, recordCall ''create'' s))"

definition sampleController :: "(string list \<times> unit, string) modelController" where
  "sampleController =
     \<lparr> mc_find = sampleFind,
       mc_index = Some (respond 200 ''all users''),
       mc_show = Some sampleShow,
       mc_create = Some sampleCreate,
       mc_update = None, mc_delete = None, mc_patch = None, mc_options = None \<rparr>"



section \<open>Facts about registration\<close>

lemma addSegments_Cons:
  "addSegments (segment # rest) fin node =
     setChild node (segKey segment) (addSegments rest fin (nextChild segment node))"
  by (simp add: segKey_def nextChild_def createdChild_def split: option.splits)

lemma children_setChild [simp]:
  "children (setChild node key child) = (children node)(key \<mapsto> child)"
  by (simp add: setChild_def)

lemma fields_setChild [simp]:
  "callback (setChild node key child) = callback node"
  "pattern (setChild node key child) = pattern node"
  "paramName (setChild node key child) = paramName node"
  "splatName (setChild node key child) = splatName node"
  "middlewares (setChild node key child) = middlewares node"
  by (simp_all add: setChild_def)

lemma fields_setRoute [simp]:
  "children (setRoute cb pat ms node) = children node"
  "callback (setRoute cb pat ms node) = Some cb"
  "pattern (setRoute cb pat ms node) = Some pat"
  "paramName (setRoute cb pat ms node) = paramName node"
  "splatName (setRoute cb pat ms node) = splatName node"
  "middlewares (setRoute cb pat ms node) = ms"
  by (simp_all add: setRoute_def)

lemma fields_setCallback [simp]:
  "children (setCallback cb node) = children node"
  "callback (setCallback cb node) = Some cb"
  "pattern (setCallback cb node) = pattern node"
  "paramName (setCallback cb node) = paramName node"
  "splatName (setCallback cb node) = splatName node"
  "middlewares (setCallback cb node) = middlewares node"
  by (simp_all add: setCallback_def)

lemma children_newTrieNode [simp]: "children newTrieNode key = None"
  by (simp add: newTrieNode_def)

lemma fields_newTrieNode [simp]:
  "callback newTrieNode = None" "middlewares newTrieNode = []"
  "paramName newTrieNode = None" "splatName newTrieNode = None"
  by (simp_all add: newTrieNode_def)

lemma fields_setParamName [simp]:
  "children (setParamName node name) = children node"
  "callback (setParamName node name) = callback node"
  "paramName (setParamName node name) = Some name"
  "middlewares (setParamName node name) = middlewares node"
  by (simp_all add: setParamName_def)

lemma setChild_setChild [simp]:
  "setChild (setChild node key a) key b = setChild node key b"
  by (simp add: setChild_def)

lemma setRoute_setRoute [simp]:
  "setRoute cb2 pat2 ms2 (setRoute cb1 pat1 ms1 node) = setRoute cb2 pat2 ms2 node"
  by (simp add: setRoute_def)

lemma setCallback_setCallback [simp]:
  "setCallback cb2 (setCallback cb1 node) = setCallback cb2 node"
  by (simp add: setCallback_def)

lemma nextChild_setChild [simp]:
  "nextChild segment (setChild node (segKey segment) child) = child"
  by (simp add: nextChild_def)

lemma keepsNames_lastAssignments: "keepsNames (lastAssignments accepts path cb ms)"
  by (simp add: keepsNames_def lastAssignments_def)

lemma children_lastAssignments [simp]:
  "children (lastAssignments accepts path cb ms n) = children n"
  by (simp add: lastAssignments_def)


text \<open>Registering along the same segments twice composes what is done to the last node.\<close>

lemma addSegments_twice:
  "addSegments segs f2 (addSegments segs f1 node) = addSegments segs (\<lambda>n. f2 (f1 n)) node"
proof (induction segs arbitrary: node)
  case Nil
  show ?case by simp
next
  case (Cons segment rest)
  show ?case
    unfolding addSegments_Cons by (simp add: Cons.IH)
qed

text \<open>The node at the end of the registered path is the one \<open>fin\<close> was applied to.\<close>

lemma nodeAt_addSegments:
  "\<exists>n. nodeAt (map segKey segs) (addSegments segs fin node) = Some (fin n)"
proof (induction segs arbitrary: node)
  case Nil
  show ?case by auto
next
  case (Cons segment rest)
  from Cons.IH [of "nextChild segment node"] show ?case
    unfolding addSegments_Cons by simp
qed

text \<open>What a call of \<^verbatim>\<open>addRoute\<close> returns, and the router it leaves.\<close>

lemma addRoute_outcome:
  "fst (addRoute accepts r m path cb ms) =
     (if accepts (patternSource path) then None else Some SyntaxError)"
  by (simp add: addRoute_def createPattern_def)

lemma methods_addRoute:
  "methods (snd (addRoute accepts r m path cb ms)) m' =
     (if m' = m
      then addSegments (splitPath path) (lastAssignments accepts path cb ms) (methods r m)
      else methods r m')"
  by (simp add: addRoute_def createPattern_def lastAssignments_def)

lemma globalMiddlewares_addRoute [simp]:
  "globalMiddlewares (snd (addRoute accepts r m path cb ms)) = globalMiddlewares r"
  by (simp add: addRoute_def createPattern_def)


lemma registered_node:
  assumes "accepts (patternSource path)"
  shows "\<exists>n. nodeAt (map segKey (splitPath path))
               (methods (snd (addRoute accepts r m path cb ms)) m) = Some n
     \<and> callback n = Some cb \<and> pattern n = Some (patternSource path) \<and> middlewares n = ms"
proof -
  obtain n0 where
    "nodeAt (map segKey (splitPath path))
       (addSegments (splitPath path) (lastAssignments accepts path cb ms) (methods r m))
     = Some (lastAssignments accepts path cb ms n0)"
    using nodeAt_addSegments by blast
  with assms show ?thesis
    by (simp add: methods_addRoute lastAssignments_def)
qed

lemma addRoute_twice:
  "addRoute accepts (snd (addRoute accepts r m path h1 ms1)) m path h2 ms2
     = addRoute accepts r m path h2 ms2"
  by (simp add: addRoute_def createPattern_def addSegments_twice)

lemma nodeAt_kept:
  assumes "keepsNames fin" and "nodeAt keys node = Some x"
  shows "\<exists>y. nodeAt keys (addSegments segs fin node) = Some y \<and> paramName y = paramName x
            \<and> splatName y = splatName x"
  using assms(2)
proof (induction segs arbitrary: keys node x)
  case Nil
  with assms(1) show ?case
    by (cases keys) (auto simp: keepsNames_def)
next
  case (Cons segment rest)
  show ?case
  proof (cases keys)
    case Nil
    with Cons.prems show ?thesis
      unfolding addSegments_Cons by simp
  next
    case (Cons key keys')
    with Cons.prems obtain child where
      child: "children node key = Some child" "nodeAt keys' child = Some x"
      by (auto split: option.splits)
    show ?thesis
    proof (cases "key = segKey segment")
      case True
      with child have "nextChild segment node = child"
        by (simp add: nextChild_def)
      with Cons.IH [OF child(2)] True Cons show ?thesis
        unfolding addSegments_Cons by simp
    next
      case False
      with child Cons show ?thesis
        unfolding addSegments_Cons by simp
    qed
  qed
qed

lemma nodeAt_newTrieNode: "keys \<noteq> [] \<Longrightarrow> nodeAt keys (createdChild segment) = None"
  by (cases keys)
    (auto simp: createdChild_def newTrieNode_def setParamName_def setSplatName_def
      split: option.splits)

lemma segKey_param: "paramMatch segment = Some name \<Longrightarrow> segKey segment = '':param''"
  by (simp add: segKey_def)

lemma paramName_createdChild:
  "paramMatch segment = Some name \<Longrightarrow> paramName (createdChild segment) = Some name"
  by (simp add: createdChild_def setParamName_def)

lemma param_created:
  assumes keeps: "keepsNames fin"
    and pm: "paramMatch segment = Some name"
    and fresh: "nodeAt (map segKey pre @ ['':param'']) node = None"
  shows "\<exists>y. nodeAt (map segKey pre @ ['':param''])
               (addSegments (pre @ segment # rest) fin node) = Some y
            \<and> paramName y = Some name"
  using fresh
proof (induction pre arbitrary: node)
  case Nil
  then have none: "children node '':param'' = None"
    by (simp split: option.splits)
  with pm have nc: "nextChild segment node = createdChild segment"
    by (simp add: nextChild_def segKey_param)
  have "nodeAt [] (createdChild segment :: 'a trie_node) = Some (createdChild segment)"
    by simp
  from nodeAt_kept [OF keeps this, of rest]
  obtain y where "addSegments rest fin (createdChild segment) = y"
    "paramName y = paramName (createdChild segment :: 'a trie_node)"
    by auto
  with pm nc show ?case
    unfolding append_Nil addSegments_Cons
    by (simp add: segKey_param paramName_createdChild)
next
  case (Cons p pre)
  have "nodeAt (map segKey pre @ ['':param'']) (nextChild p node) = None"
  proof (cases "children node (segKey p)")
    case None
    then show ?thesis
      by (simp add: nextChild_def nodeAt_newTrieNode)
  next
    case (Some child)
    with Cons.prems show ?thesis
      by (simp add: nextChild_def)
  qed
  from Cons.IH [OF this] show ?case
    unfolding append_Cons addSegments_Cons by simp
qed



lemma split_users_id: "splitPath ''/users/:id'' = [''users'', '':id'']"
  by code_simp

lemma split_users_name: "splitPath ''/users/:name'' = [''users'', '':name'']"
  by code_simp

lemma sources_taken:
  "groupsClosed (patternSource ''/users/:id'')"
  "groupsClosed (patternSource ''/users/:name'')"
  "groupsClosed (patternSource ''/ping'')"
  "groupsClosed (patternSource ''/about'')"
  "groupsClosed (patternSource ''/items'')"
  by code_simp+

subsection \<open>Paths that end in \<^verbatim>\<open>/:id\<close>\<close>













section \<open>Facts about \<open>params\<close>\<close>

lemma own_setProperty:
  "key \<noteq> ''__proto__'' \<Longrightarrow>
   own (setProperty obj k v) key = (if k = key then Some v else own obj key)"
  by (auto simp: setProperty_def protoSetter_def split: proto.splits jsval.splits)

lemma assignAll_Nil [simp]: "assignAll [] obj = obj"
  by (simp add: assignAll_def)

lemma assignAll_Cons [simp]:
  "assignAll ((key, v) # entries) obj = assignAll entries (setProperty obj key v)"
  by (simp add: assignAll_def)

lemma assignAll_append: "assignAll (xs @ ys) obj = assignAll ys (assignAll xs obj)"
  by (simp add: assignAll_def)

text \<open>An own property other than \<^verbatim>\<open>__proto__\<close> holds the value of the last assignment to it.\<close>

lemma own_assignAll:
  "key \<noteq> ''__proto__'' \<Longrightarrow>
   own (assignAll entries obj) key =
     (case map_of (rev entries) key of Some v \<Rightarrow> Some v | None \<Rightarrow> own obj key)"
proof (induction entries arbitrary: obj)
  case Nil
  show ?case by simp
next
  case (Cons e entries)
  obtain k v where e: "e = (k, v)"
    by (cases e)
  from Cons show ?case
    by (simp add: e own_setProperty map_add_def split: option.splits)
qed

section \<open>Facts about dispatch\<close>

lemma populate_world:
  "populateParams req s = (x, s1) \<Longrightarrow> world s1 = world s"
  by (auto simp: populateParams_def requestJson_def requestText_def requestFormData_def
      split: if_splits option.splits prod.splits sum.splits)

text \<open>What lines 175-197 leave of the fresh \<^verbatim>\<open>params\<close>, by the kind of request.\<close>

lemma populate_query:
  "req_method req = ''GET'' \<Longrightarrow>
   populateParams req (freshState w) =
     (Inr (), \<lparr> params = assignAll (stringEntries (req_query req)) emptyObject,
               bodyUsed = False, world = w \<rparr>)"
  by (simp add: populateParams_def freshState_def)

lemma populate_json:
  assumes "req_method req \<noteq> ''GET''" and "req_contentType req = Some ct"
    and "startsWith ct ''application/json''"
    and "req_json req = Some v" and "objectEntries v = Inr entries"
  shows "populateParams req (freshState w) =
     (Inr (), \<lparr> params = assignAll entries emptyObject, bodyUsed = True, world = w \<rparr>)"
  using assms by (simp add: populateParams_def freshState_def requestJson_def)

lemma populate_form:
  assumes "req_method req \<noteq> ''GET''" and "req_contentType req = Some ct"
    and "\<not> startsWith ct ''application/json''"
    and "startsWith ct ''application/x-www-form-urlencoded''"
  shows "populateParams req (freshState w) =
     (Inr (), \<lparr> params = assignAll (stringEntries (req_form req)) emptyObject,
               bodyUsed = True, world = w \<rparr>)"
  using assms by (simp add: populateParams_def freshState_def requestText_def)

lemma populate_multipart:
  assumes "req_method req \<noteq> ''GET''" and "req_contentType req = Some ct"
    and "\<not> startsWith ct ''application/json''"
    and "\<not> startsWith ct ''application/x-www-form-urlencoded''"
    and "startsWith ct ''multipart/form-data''"
    and "req_multipart req = Some parts"
  shows "populateParams req (freshState w) =
     (Inr (), \<lparr> params = assignAll parts emptyObject, bodyUsed = True, world = w \<rparr>)"
  using assms by (simp add: populateParams_def freshState_def requestFormData_def)

lemma populate_nothing:
  assumes "req_method req \<noteq> ''GET''"
    and "\<forall>ct. req_contentType req = Some ct \<longrightarrow>
           \<not> startsWith ct ''application/json''
           \<and> \<not> startsWith ct ''application/x-www-form-urlencoded''
           \<and> \<not> startsWith ct ''multipart/form-data''"
  shows "populateParams req (freshState w) =
     (Inr (), \<lparr> params = emptyObject, bodyUsed = False, world = w \<rparr>)"
  using assms by (simp add: populateParams_def freshState_def split: option.splits)

text \<open>The walk is its course: the node at the end of the keys, and the assignments made.\<close>

lemma walk_trace:
  "walk pathname segs node ps =
     (case trace pathname segs node of
        None \<Rightarrow> None
      | Some (keys, writes) \<Rightarrow>
          map_option (\<lambda>n. (n, assignAll writes ps)) (nodeAt keys node))"
proof (induction segs arbitrary: node ps)
  case Nil
  show ?case by simp
next
  case (Cons segment rest)
  show ?case
  proof (cases "children node segment")
    case (Some child)
    then show ?thesis
      using Cons.IH [of child ps] by (simp split: option.splits prod.splits)
  next
    case None
    note lit = this
    show ?thesis
    proof (cases "children node '':param''")
      case (Some child)
      with lit show ?thesis
        using Cons.IH [of child "setProperty ps (keyOf (paramName child)) (JStr segment)"]
        by (simp split: option.splits prod.splits)
    next
      case None
      with lit show ?thesis
        by (simp split: option.splits)
    qed
  qed
qed

lemma trace_nodeAt:
  "trace pathname segs node = Some (keys, writes) \<Longrightarrow> \<exists>n. nodeAt keys node = Some n"
proof (induction segs arbitrary: node keys writes)
  case Nil
  then show ?case by simp
next
  case (Cons segment rest)
  show ?case
  proof (cases "children node segment")
    case (Some child)
    with Cons.prems obtain ks where "trace pathname rest child = Some (ks, writes)"
      "keys = segment # ks"
      by auto
    with Cons.IH [of child ks writes] Some show ?thesis
      by simp
  next
    case None
    note lit = this
    show ?thesis
    proof (cases "children node '':param''")
      case (Some child)
      with lit Cons.prems obtain ks ws where "trace pathname rest child = Some (ks, ws)"
        "keys = '':param'' # ks"
        by auto
      with Cons.IH [of child ks ws] Some show ?thesis
        by simp
    next
      case None
      with lit Cons.prems show ?thesis
        by (auto split: option.splits)
    qed
  qed
qed

text \<open>A request whose segments are the keys of a node follows them and binds nothing.\<close>

lemma trace_keys:
  "nodeAt keys node = Some n \<Longrightarrow> trace pathname keys node = Some (keys, [])"
  by (induction keys arbitrary: node) (auto split: option.splits)


lemma executeRouteMiddlewares_chain:
  "executeRouteMiddlewares node req index =
     chain (drop index (middlewares node)) req (handleRoute node req)"
proof (induction node req index rule: executeRouteMiddlewares.induct)
  case (1 node req index)
  show ?case
  proof (cases "index \<ge> length (middlewares node)")
    case True
    then show ?thesis
      by (subst executeRouteMiddlewares.simps) (simp add: chain_def)
  next
    case False
    then have "drop index (middlewares node) =
        (middlewares node ! index) # drop (index + 1) (middlewares node)"
      by (simp add: Cons_nth_drop_Suc)
    with False 1 show ?thesis
      by (subst executeRouteMiddlewares.simps) (simp add: chain_def)
  qed
qed

lemma executeGlobalMiddlewares_chain:
  "executeGlobalMiddlewares r node req index =
     chain (drop index (globalMiddlewares r) @ middlewares node) req (handleRoute node req)"
proof (induction r node req index rule: executeGlobalMiddlewares.induct)
  case (1 r node req index)
  show ?case
  proof (cases "index \<ge> length (globalMiddlewares r)")
    case True
    then show ?thesis
      by (subst executeGlobalMiddlewares.simps)
        (simp add: executeRouteMiddlewares_chain chain_def)
  next
    case False
    then have "drop index (globalMiddlewares r) =
        (globalMiddlewares r ! index) # drop (index + 1) (globalMiddlewares r)"
      by (simp add: Cons_nth_drop_Suc)
    with False 1 show ?thesis
      by (subst executeGlobalMiddlewares.simps) (simp add: chain_def)
  qed
qed

lemma handleRoute_no_callback:
  "callback node = None \<Longrightarrow> handleRoute node req = (\<lambda>s. (Inr send404, s))"
  by (rule ext) (simp add: handleRoute_def)

lemma handleRoute_callback:
  "callback node = Some h \<Longrightarrow> handleRoute node req = h req"
  by (rule ext) (simp add: handleRoute_def)

lemma route_matched:
  assumes "methodNamed (toUpperCase (req_method req)) = Some m"
    and "populateParams req (freshState w) = (Inr u, s1)"
    and "walk (pathSegments (req_pathname req)) (pathSegments (req_pathname req))
           (methods r m) (params s1) = Some (node, ps)"
  shows "route r req w =
           chain (globalMiddlewares r @ middlewares node) req (handleRoute node req)
             (s1\<lparr> params := ps \<rparr>)"
  using assms by (simp add: route_def Let_def executeGlobalMiddlewares_chain)

lemma route_unmatched:
  assumes "methodNamed (toUpperCase (req_method req)) = Some m"
    and "populateParams req (freshState w) = (Inr u, s1)"
    and "walk (pathSegments (req_pathname req)) (pathSegments (req_pathname req))
           (methods r m) (params s1) = None"
  shows "route r req w = (Inr send404, s1)"
  using assms by (simp add: route_def Let_def)

text \<open>\<^verbatim>\<open>route\<close> for a request whose walk takes a known course.\<close>

lemma route_traced:
  assumes "methodNamed (toUpperCase (req_method req)) = Some m"
    and "populateParams req (freshState w) = (Inr u, s1)"
    and "trace (pathSegments (req_pathname req)) (pathSegments (req_pathname req))
           (methods r m) = Some (keys, writes)"
    and "nodeAt keys (methods r m) = Some node"
  shows "route r req w =
           chain (globalMiddlewares r @ middlewares node) req (handleRoute node req)
             (s1\<lparr> params := assignAll writes (params s1) \<rparr>)"
proof -
  from assms(3,4)
  have "walk (pathSegments (req_pathname req)) (pathSegments (req_pathname req))
           (methods r m) (params s1) = Some (node, assignAll writes (params s1))"
    by (simp add: walk_trace)
  with assms(1,2) show ?thesis
    by (rule route_matched)
qed

text \<open>\<^verbatim>\<open>route\<close> for a request whose segments are the keys of a route.\<close>

lemma route_at_keys:
  assumes "methodNamed (toUpperCase (req_method req)) = Some m"
    and "populateParams req (freshState w) = (Inr u, s1)"
    and "pathSegments (req_pathname req) = keys"
    and "nodeAt keys (methods r m) = Some node"
    and "callback node = Some h"
  shows "route r req w = chain (globalMiddlewares r @ middlewares node) req (h req) s1"
proof -
  from assms(4)
  have "trace keys keys (methods r m) = Some (keys, [])"
    by (rule trace_keys)
  with assms(3)
  have "trace (pathSegments (req_pathname req)) (pathSegments (req_pathname req))
           (methods r m) = Some (keys, [])"
    by simp
  from route_traced [OF assms(1,2) this assms(4)] handleRoute_callback [OF assms(5), of req]
  show ?thesis
    by simp
qed

subsection \<open>The routes of the instances\<close>

lemma users_matches:
  "paramMatch ''users'' = None" "splatMatch ''users'' = None"
  "paramMatch '':id'' = Some ''id''"
  by code_simp+

lemma users_trie:
  "methods (snd (get accepts newRouter ''/users/:id'' h [])) GET =
     setChild newTrieNode ''users''
       (setChild (newTrieNode) '':param''
          (lastAssignments accepts ''/users/:id'' h [] (setParamName newTrieNode ''id'')))"
  by (simp add: get_def methods_addRoute newRouter_def split_users_id users_matches)

lemma users_requests:
  "pathSegments ''/users/42'' = [''users'', ''42'']"
  "pathSegments ''/users/42/extra'' = [''users'', ''42'', ''extra'']"
  "pathSegments ''/users'' = [''users'']"
  "methodNamed (toUpperCase ''GET'') = Some GET"
  by code_simp+

lemma populate_get:
  "populateParams (getRequest path []) s = (Inr (), s)"
  by (simp add: populateParams_def getRequest_def assignAll_def stringEntries_def)

lemma globals_get [simp]:
  "globalMiddlewares (snd (get accepts r path h ms)) = globalMiddlewares r"
  by (simp add: get_def)

lemma getRequest_fields [simp]:
  "req_method (getRequest path query) = ''GET''"
  "req_pathname (getRequest path query) = path"
  "req_query (getRequest path query) = query"
  by (simp_all add: getRequest_def)

lemma globals_newRouter [simp]: "globalMiddlewares newRouter = []"
  by (simp add: newRouter_def)

lemma fields_lastAssignments [simp]:
  "callback (lastAssignments accepts path cb ms n) = Some cb"
  "paramName (lastAssignments accepts path cb ms n) = paramName n"
  "splatName (lastAssignments accepts path cb ms n) = splatName n"
  by (simp_all add: lastAssignments_def)

lemma middlewares_lastAssignments_empty [simp]:
  "middlewares n = [] \<Longrightarrow> middlewares (lastAssignments accepts path cb [] n) = []"
  by (simp add: lastAssignments_def)

lemma users_42:
  "route (snd (get accepts newRouter ''/users/:id'' h [])) (getRequest ''/users/42'' []) w
      = h (getRequest ''/users/42'' [])
          \<lparr> params = \<lparr> own = [''id'' \<mapsto> JStr ''42''], inherits = ObjectPrototype \<rparr>,
            bodyUsed = False, world = w \<rparr>"
  by (simp add: route_def populate_get users_requests users_trie keyOf_def freshState_def
      executeGlobalMiddlewares_chain chain_def handleRoute_def Let_def setProperty_def
      emptyObject_def)

lemma users_42_extra:
  "route (snd (get accepts newRouter ''/users/:id'' h [])) (getRequest ''/users/42/extra'' []) w
           = (Inr send404, freshState w)"
  by (simp add: route_def populate_get users_requests users_trie keyOf_def Let_def)

section \<open>Facts about the middleware chain\<close>

lemma chain_append: "chain (xs @ ys) req k = chain xs req (chain ys req k)"
  by (simp add: chain_def)

lemma chain_Cons: "chain (mw # ms) req k = mw req (chain ms req k)"
  by (simp add: chain_def)

lemma chain_Nil: "chain [] req k = k"
  by (simp add: chain_def)

lemma chain_passing:
  assumes "\<forall>mw \<in> set pre. \<forall>k s. \<exists>s'. mw req k s = k s'"
  shows "\<exists>s'. chain pre req h s = h s'"
  using assms
proof (induction pre arbitrary: s)
  case Nil
  show ?case by (auto simp: chain_Nil)
next
  case (Cons mw pre)
  from Cons.prems have "\<forall>k s. \<exists>s'. mw req k s = k s'"
    by simp
  then obtain s1 where "mw req (chain pre req h) s = chain pre req h s1"
    by blast
  moreover from Cons.prems have "\<forall>mw \<in> set pre. \<forall>k s. \<exists>s'. mw req k s = k s'"
    by simp
  from Cons.IH [OF this] obtain s2 where "chain pre req h s1 = h s2"
    by blast
  ultimately show ?case
    by (auto simp: chain_Cons)
qed

lemma journal_recordCall [simp]: "journal (recordCall name s) = journal s @ [name]"
  by (simp add: journal_def recordCall_def)

lemma entersInOrder_step:
  fixes k :: "(string list \<times> 'u) comp"
  assumes k: "entersInOrder names k"
    and q: "quiet (name, before, after)"
  shows "entersInOrder (name # names) (tracked (name, before, after) req k)"
  unfolding entersInOrder_def
proof
  fix s :: "(string list \<times> 'u) rstate"
  let ?s0 = "recordCall name s"
  obtain x s1 where b: "before req ?s0 = (x, s1)"
    by (cases "before req ?s0")
  from q have qb: "journal (snd (before req' s')) = journal s'"
    and qa: "journal (snd (after req' y' result' s')) = journal s'" for req' s' y' result'
    by (simp_all add: quiet_def)
  from qb [of req ?s0] b have j1: "journal s1 = journal s @ [name]"
    by simp
  show "\<exists>n. n \<le> length (name # names)
         \<and> journal (snd (tracked (name, before, after) req k s))
             = journal s @ take n (name # names)"
  proof (cases x)
    case (Inl result)
    with b j1 have "journal (snd (tracked (name, before, after) req k s)) = journal s @ [name]"
      by (simp add: tracked_def recorded_def atMostOnce_def)
    then show ?thesis
      by (intro exI [of _ 1]) simp
  next
    case (Inr y)
    obtain result s2 where n: "k s1 = (result, s2)"
      by (cases "k s1")
    from k obtain i where i: "i \<le> length names"
      "journal (snd (k s1)) = journal s1 @ take i names"
      unfolding entersInOrder_def by blast
    obtain out s3 where a: "after req y result s2 = (out, s3)"
      by (cases "after req y result s2")
    from qa [of req y result s2] a have "journal s3 = journal s2"
      by simp
    with i n j1 have j3: "journal s3 = journal s @ take (Suc i) (name # names)"
      by simp
    from Inr b n a have "tracked (name, before, after) req k s = (out, s3)"
      by (simp add: tracked_def recorded_def atMostOnce_def)
    with j3 i(1) show ?thesis
      by (intro exI [of _ "Suc i"]) simp
  qed
qed

lemma entersInOrder_chain:
  assumes "keepsJournal final" and "\<forall>spec \<in> set specs. quiet spec"
  shows "entersInOrder (map fst specs) (chain (map tracked specs) req final)"
  using assms(2)
proof (induction specs)
  case Nil
  with assms(1) show ?case
    by (simp add: chain_Nil entersInOrder_def keepsJournal_def)
next
  case (Cons spec specs)
  obtain name before after where spec: "spec = (name, before, after)"
    by (cases spec)
  from Cons have ih: "entersInOrder (map fst specs) (chain (map tracked specs) req final)"
    by simp
  from Cons.prems spec have "quiet (name, before, after)"
    by simp
  with ih have "entersInOrder (name # map fst specs)
      (tracked (name, before, after) req (chain (map tracked specs) req final))"
    by (rule entersInOrder_step)
  with spec show ?case
    by (simp add: chain_Cons)
qed

lemma ping_matches:
  "splitPath ''/ping'' = [''ping'']"
  "paramMatch ''ping'' = None" "splatMatch ''ping'' = None"
  "pathSegments ''/ping'' = [''ping'']"
  by code_simp+

lemma methods_use [simp]: "methods (use r mw) = methods r"
  by (simp add: use_def)

lemma methods_foldl_use [simp]: "methods (foldl use r mws) = methods r"
  by (induction mws arbitrary: r) simp_all

lemma globals_foldl_use [simp]:
  "globalMiddlewares (foldl use r mws) = globalMiddlewares r @ mws"
  by (induction mws arbitrary: r) (simp_all add: use_def)

lemma sampleRouter_globals: "globalMiddlewares (sampleRouter globals locals h) = globals"
  by (simp add: sampleRouter_def)

lemma sampleRouter_trie:
  "methods (sampleRouter globals locals h) GET =
     setChild newTrieNode ''ping'' (setRoute h (patternSource ''/ping'') locals newTrieNode)"
  by (simp add: sampleRouter_def get_def methods_addRoute newRouter_def ping_matches
      lastAssignments_def sources_taken)

lemma ping_request:
  "methodNamed (toUpperCase (req_method (getRequest ''/ping'' []))) = Some GET"
  "populateParams (getRequest ''/ping'' []) (freshState w) = (Inr (), freshState w)"
  by (simp_all add: users_requests populate_get)

lemma ping_walk:
  "walk (pathSegments (req_pathname (getRequest ''/ping'' [])))
     (pathSegments (req_pathname (getRequest ''/ping'' [])))
     (methods (sampleRouter globals locals h) GET) (params (freshState w))
   = Some (setRoute h (patternSource ''/ping'') locals newTrieNode, emptyObject)"
  by (simp add: ping_matches sampleRouter_trie freshState_def)

section \<open>Facts about controllers\<close>









section \<open>Claims\<close>

text \<open>
  C1 (as amended). \<^verbatim>\<open>route\<close> fills \<^verbatim>\<open>params\<close> from the query string (on \<^verbatim>\<open>GET\<close>) or from the parsed
  body (on any other method, by its Content-Type; without one of the three types nothing is
  read) first, and the trie walk assigns the path parameters afterwards. For a request whose walk takes the course \<open>keys\<close> and makes the
  assignments \<open>writes\<close>, the object handed to the chain is the fresh object after the
  assignments of the query or body entries, in their order, and then of \<open>writes\<close>. An own
  property other than \<^verbatim>\<open>__proto__\<close> therefore holds what the walk assigned last to that key, else
  what the query or body assigned last: a parameter that the walk binds for this request
  wins over a query or body key of the same name. The course is that of the loop of lines
  199-212: from any \<^verbatim>\<open>params\<close> the walk ends on the node at \<open>keys\<close> and has made the assignments
  \<open>writes\<close>.
\<close>

theorem C1_path_overrides:
  assumes "methodNamed (toUpperCase (req_method req)) = Some m"
    and "trace (pathSegments (req_pathname req)) (pathSegments (req_pathname req))
           (methods r m) = Some (keys, writes)"
    and "nodeAt keys (methods r m) = Some node"
  shows
    "(req_method req = ''GET'' \<longrightarrow>
        route r req w =
          chain (globalMiddlewares r @ middlewares node) req (handleRoute node req)
            \<lparr> params = assignAll writes (assignAll (stringEntries (req_query req)) emptyObject),
              bodyUsed = False, world = w \<rparr>)
   \<and> (\<forall>ct v entries.
         req_method req \<noteq> ''GET'' \<and> req_contentType req = Some ct
         \<and> startsWith ct ''application/json''
         \<and> req_json req = Some v \<and> objectEntries v = Inr entries \<longrightarrow>
        route r req w =
          chain (globalMiddlewares r @ middlewares node) req (handleRoute node req)
            \<lparr> params = assignAll writes (assignAll entries emptyObject),
              bodyUsed = True, world = w \<rparr>)
   \<and> (\<forall>ct.
         req_method req \<noteq> ''GET'' \<and> req_contentType req = Some ct
         \<and> \<not> startsWith ct ''application/json''
         \<and> startsWith ct ''application/x-www-form-urlencoded'' \<longrightarrow>
        route r req w =
          chain (globalMiddlewares r @ middlewares node) req (handleRoute node req)
            \<lparr> params = assignAll writes (assignAll (stringEntries (req_form req)) emptyObject),
              bodyUsed = True, world = w \<rparr>)
   \<and> (\<forall>ct parts.
         req_method req \<noteq> ''GET'' \<and> req_contentType req = Some ct
         \<and> \<not> startsWith ct ''application/json''
         \<and> \<not> startsWith ct ''application/x-www-form-urlencoded''
         \<and> startsWith ct ''multipart/form-data'' \<and> req_multipart req = Some parts \<longrightarrow>
        route r req w =
          chain (globalMiddlewares r @ middlewares node) req (handleRoute node req)
            \<lparr> params = assignAll writes (assignAll parts emptyObject),
              bodyUsed = True, world = w \<rparr>)
   \<and> (req_method req \<noteq> ''GET''
       \<and> (\<forall>ct. req_contentType req = Some ct \<longrightarrow>
              \<not> startsWith ct ''application/json''
              \<and> \<not> startsWith ct ''application/x-www-form-urlencoded''
              \<and> \<not> startsWith ct ''multipart/form-data'') \<longrightarrow>
        route r req w =
          chain (globalMiddlewares r @ middlewares node) req (handleRoute node req)
            \<lparr> params = assignAll writes emptyObject, bodyUsed = False, world = w \<rparr>)
   \<and> (\<forall>key source.
         key \<noteq> ''__proto__'' \<longrightarrow>
         own (assignAll writes (assignAll source emptyObject)) key =
           (case map_of (rev writes) key of
              Some v \<Rightarrow> Some v
            | None \<Rightarrow> map_of (rev source) key))
   \<and> (\<forall>ps. walk (pathSegments (req_pathname req)) (pathSegments (req_pathname req))
              (methods r m) ps = Some (node, assignAll writes ps))"
proof (intro conjI allI impI)
  fix ps
  show "walk (pathSegments (req_pathname req)) (pathSegments (req_pathname req))
              (methods r m) ps = Some (node, assignAll writes ps)"
    by (simp add: walk_trace assms(2,3))
next
  assume "req_method req = ''GET''"
  from route_traced [OF assms(1) populate_query [OF this] assms(2,3)]
  show "route r req w =
          chain (globalMiddlewares r @ middlewares node) req (handleRoute node req)
            \<lparr> params = assignAll writes (assignAll (stringEntries (req_query req)) emptyObject),
              bodyUsed = False, world = w \<rparr>"
    by simp
next
  fix ct v entries
  assume "req_method req \<noteq> ''GET'' \<and> req_contentType req = Some ct
         \<and> startsWith ct ''application/json''
         \<and> req_json req = Some v \<and> objectEntries v = Inr entries"
  then have "populateParams req (freshState w) =
     (Inr (), \<lparr> params = assignAll entries emptyObject, bodyUsed = True, world = w \<rparr>)"
    by (elim conjE) (rule populate_json, assumption+)
  from route_traced [OF assms(1) this assms(2,3)]
  show "route r req w =
          chain (globalMiddlewares r @ middlewares node) req (handleRoute node req)
            \<lparr> params = assignAll writes (assignAll entries emptyObject),
              bodyUsed = True, world = w \<rparr>"
    by simp
next
  fix ct
  assume "req_method req \<noteq> ''GET'' \<and> req_contentType req = Some ct
         \<and> \<not> startsWith ct ''application/json''
         \<and> startsWith ct ''application/x-www-form-urlencoded''"
  then have "populateParams req (freshState w) =
     (Inr (), \<lparr> params = assignAll (stringEntries (req_form req)) emptyObject,
               bodyUsed = True, world = w \<rparr>)"
    by (elim conjE) (rule populate_form, assumption+)
  from route_traced [OF assms(1) this assms(2,3)]
  show "route r req w =
          chain (globalMiddlewares r @ middlewares node) req (handleRoute node req)
            \<lparr> params = assignAll writes (assignAll (stringEntries (req_form req)) emptyObject),
              bodyUsed = True, world = w \<rparr>"
    by simp
next
  fix ct parts
  assume "req_method req \<noteq> ''GET'' \<and> req_contentType req = Some ct
         \<and> \<not> startsWith ct ''application/json''
         \<and> \<not> startsWith ct ''application/x-www-form-urlencoded''
         \<and> startsWith ct ''multipart/form-data'' \<and> req_multipart req = Some parts"
  then have "populateParams req (freshState w) =
     (Inr (), \<lparr> params = assignAll parts emptyObject, bodyUsed = True, world = w \<rparr>)"
    by (elim conjE) (rule populate_multipart, assumption+)
  from route_traced [OF assms(1) this assms(2,3)]
  show "route r req w =
          chain (globalMiddlewares r @ middlewares node) req (handleRoute node req)
            \<lparr> params = assignAll writes (assignAll parts emptyObject),
              bodyUsed = True, world = w \<rparr>"
    by simp
next
  assume "req_method req \<noteq> ''GET''
       \<and> (\<forall>ct. req_contentType req = Some ct \<longrightarrow>
              \<not> startsWith ct ''application/json''
              \<and> \<not> startsWith ct ''application/x-www-form-urlencoded''
              \<and> \<not> startsWith ct ''multipart/form-data'')"
  then have "populateParams req (freshState w) =
     (Inr (), \<lparr> params = emptyObject, bodyUsed = False, world = w \<rparr>)"
    by (elim conjE) (rule populate_nothing, assumption+)
  from route_traced [OF assms(1) this assms(2,3)]
  show "route r req w =
          chain (globalMiddlewares r @ middlewares node) req (handleRoute node req)
            \<lparr> params = assignAll writes emptyObject, bodyUsed = False, world = w \<rparr>"
    by simp
next
  fix key :: string and source :: "(string \<times> jsval) list"
  assume "key \<noteq> ''__proto__''"
  then show "own (assignAll writes (assignAll source emptyObject)) key =
           (case map_of (rev writes) key of
              Some v \<Rightarrow> Some v
            | None \<Rightarrow> map_of (rev source) key)"
    by (simp add: own_assignAll emptyObject_def split: option.splits)
qed

theorem C1_path_overrides_witness:
  "route (snd (get groupsClosed (newRouter :: unit router) ''/users/:id''
                 (echoParams [''id'', ''tag'']) []))
     (getRequest ''/users/42'' [(''id'', ''7''), (''tag'', ''x'')]) ()
   = (Inr \<lparr> status = 200, body = ''42,x'' \<rparr>,
      \<lparr> params = \<lparr> own = [''id'' \<mapsto> JStr ''42'', ''tag'' \<mapsto> JStr ''x''],
                   inherits = ObjectPrototype \<rparr>,
        bodyUsed = False, world = () \<rparr>)
   \<and> fst (route (snd (post groupsClosed (newRouter :: unit router) ''/users/:id''
                 (echoParams [''id'', ''name'']) []))
          (jsonRequest ''POST'' ''/users/42'' ''application/json''
             (JObj [(''id'', JStr ''7''), (''name'', JStr ''x'')])) ())
     = Inr \<lparr> status = 200, body = ''42,x'' \<rparr>
   \<and> fst (route (snd (get groupsClosed (newRouter :: unit router) ''/users/:id''
                 (echoParams [''id'', ''tag'']) []))
          (getRequest ''/users/:param'' [(''id'', ''7''), (''tag'', ''x'')]) ())
     = Inr \<lparr> status = 200, body = ''7,x'' \<rparr>
   \<and> fst (route (snd (get groupsClosed (newRouter :: unit router) ''/users/:id''
                 (echoParams [''id'', ''__proto__'']) []))
          (getRequest ''/users/42'' [(''__proto__'', ''abc'')]) ())
     = Inr \<lparr> status = 200, body = ''42,undefined'' \<rparr>"
proof (intro conjI)
  let ?h = "echoParams [''id'', ''tag''] :: unit callback"
  let ?r = "snd (get groupsClosed (newRouter :: unit router) ''/users/:id'' ?h [])"
  let ?req = "getRequest ''/users/42'' [(''id'', ''7''), (''tag'', ''x'')]"
  let ?node = "lastAssignments groupsClosed ''/users/:id'' ?h []
      (setParamName (newTrieNode :: unit trie_node) ''id'')"
  have m: "methodNamed (toUpperCase (req_method ?req)) = Some GET"
    by (simp add: users_requests)
  have t: "trace (pathSegments (req_pathname ?req)) (pathSegments (req_pathname ?req))
      (methods ?r GET) = Some ([''users'', '':param''], [(''id'', JStr ''42'')])"
    by (simp add: users_requests users_trie keyOf_def)
  have n: "nodeAt [''users'', '':param''] (methods ?r GET) = Some ?node"
    by (simp add: users_trie)
  have texts: "ownTexts \<lparr> own = [''id'' \<mapsto> JStr ''42'', ''tag'' \<mapsto> JStr ''x''],
      inherits = ObjectPrototype \<rparr> [''id'', ''tag''] = Inr [''42'', ''x'']"
    by (simp add: propertyText_def)
  have "[''tag'' \<mapsto> JStr ''x'', ''id'' \<mapsto> JStr ''42'']
      = [''id'' \<mapsto> JStr ''42'', ''tag'' \<mapsto> JStr ''x'']"
    by (rule ext) simp
  with C1_path_overrides [OF m t n, of "()", THEN conjunct1] texts
  show "route ?r ?req () =
      (Inr \<lparr> status = 200, body = ''42,x'' \<rparr>,
       \<lparr> params = \<lparr> own = [''id'' \<mapsto> JStr ''42'', ''tag'' \<mapsto> JStr ''x''],
                    inherits = ObjectPrototype \<rparr>,
         bodyUsed = False, world = () \<rparr>)"
    by (simp add: chain_def handleRoute_def echoParams_def stringEntries_def setProperty_def
        emptyObject_def)
next
  show "fst (route (snd (post groupsClosed (newRouter :: unit router) ''/users/:id''
                 (echoParams [''id'', ''name'']) []))
          (jsonRequest ''POST'' ''/users/42'' ''application/json''
             (JObj [(''id'', JStr ''7''), (''name'', JStr ''x'')])) ())
     = Inr \<lparr> status = 200, body = ''42,x'' \<rparr>"
    by code_simp
next
  show "fst (route (snd (get groupsClosed (newRouter :: unit router) ''/users/:id''
                 (echoParams [''id'', ''tag'']) []))
          (getRequest ''/users/:param'' [(''id'', ''7''), (''tag'', ''x'')]) ())
     = Inr \<lparr> status = 200, body = ''7,x'' \<rparr>"
    by code_simp
next
  show "fst (route (snd (get groupsClosed (newRouter :: unit router) ''/users/:id''
                 (echoParams [''id'', ''__proto__'']) []))
          (getRequest ''/users/42'' [(''__proto__'', ''abc'')]) ())
     = Inr \<lparr> status = 200, body = ''42,undefined'' \<rparr>"
    by code_simp
qed

text \<open>
  C1 as stated fails: for \<^verbatim>\<open>GET /users/42?id=7&tag=x\<close> on the route \<^verbatim>\<open>/users/:id\<close> the handler
  reads \<^verbatim>\<open>params.tag\<close> as \<^verbatim>\<open>"x"\<close>, from the query, and \<^verbatim>\<open>params.id\<close> as \<^verbatim>\<open>"42"\<close>, the path
  segment, not the query value \<^verbatim>\<open>"7"\<close>.
\<close>

theorem C1_query_value_not_retained:
  "fst (route (snd (get groupsClosed (newRouter :: unit router) ''/users/:id''
                 (echoParams [''id'', ''tag'']) []))
          (getRequest ''/users/42'' [(''id'', ''7''), (''tag'', ''x'')]) ())
   = Inr \<lparr> status = 200, body = ''42,x'' \<rparr>
   \<and> fst (get groupsClosed (newRouter :: unit router) ''/users/:id''
                 (echoParams [''id'', ''tag'']) []) = None"
  by code_simp

text \<open>
  C2 (as amended). When two routes of one method put a parameter at the same position,
  the \<^verbatim>\<open>:param\<close> child they share exists after both registrations and stores the same
  name as after the first registration alone: line 102 only creates and names the child
  when it is missing, so the second name is dropped. When the position held no
  \<^verbatim>\<open>:param\<close> child before, the stored name is the first route's. This holds whether or not
  the registrations return normally, since the loop is over when line 122 runs. The clash
  of the names raises nothing: each of the two calls throws exactly when \<^verbatim>\<open>new RegExp\<close> refuses
  the source made from its own path.
\<close>

theorem C2_first_param_name_kept:
  assumes "splitPath path1 = pre1 @ seg1 # rest1"
    and "splitPath path2 = pre2 @ seg2 # rest2"
    and "map segKey pre1 = map segKey pre2"
    and "paramMatch seg1 = Some name1"
    and "paramMatch seg2 = Some name2"
  shows "nodeAt (map segKey pre2 @ ['':param''])
           (methods (snd (addRoute accepts (snd (addRoute accepts r m path1 h1 ms1))
                            m path2 h2 ms2)) m) \<noteq> None
    \<and> map_option paramName
         (nodeAt (map segKey pre2 @ ['':param''])
            (methods (snd (addRoute accepts (snd (addRoute accepts r m path1 h1 ms1))
                             m path2 h2 ms2)) m))
       = map_option paramName
           (nodeAt (map segKey pre1 @ ['':param''])
              (methods (snd (addRoute accepts r m path1 h1 ms1)) m))
    \<and> (nodeAt (map segKey pre1 @ ['':param'']) (methods r m) = None
         \<longrightarrow> map_option paramName
               (nodeAt (map segKey pre2 @ ['':param''])
                  (methods (snd (addRoute accepts (snd (addRoute accepts r m path1 h1 ms1))
                                   m path2 h2 ms2)) m))
             = Some (Some name1))
    \<and> fst (addRoute accepts r m path1 h1 ms1)
        = (if accepts (patternSource path1) then None else Some SyntaxError)
    \<and> fst (addRoute accepts (snd (addRoute accepts r m path1 h1 ms1)) m path2 h2 ms2)
        = (if accepts (patternSource path2) then None else Some SyntaxError)"
proof -
  let ?keys = "map segKey pre1 @ ['':param'']"
  let ?fin1 = "lastAssignments accepts path1 h1 ms1"
  let ?fin2 = "lastAssignments accepts path2 h2 ms2"
  let ?t1 = "addSegments (splitPath path1) ?fin1 (methods r m)"
  have first: "\<exists>x. nodeAt ?keys ?t1 = Some x
      \<and> (nodeAt ?keys (methods r m) = None \<longrightarrow> paramName x = Some name1)"
  proof (cases "nodeAt ?keys (methods r m)")
    case None
    have "keepsNames ?fin1"
      by (rule keepsNames_lastAssignments)
    from param_created [OF this assms(4) None, of rest1]
    show ?thesis
      by (auto simp: assms(1))
  next
    case (Some x0)
    have "keepsNames ?fin1"
      by (rule keepsNames_lastAssignments)
    from nodeAt_kept [OF this Some, of "splitPath path1"]
    show ?thesis
      by (auto simp: Some)
  qed
  then obtain x where x: "nodeAt ?keys ?t1 = Some x"
    "nodeAt ?keys (methods r m) = None \<longrightarrow> paramName x = Some name1"
    by (elim exE conjE)
  have "keepsNames ?fin2"
    by (rule keepsNames_lastAssignments)
  from nodeAt_kept [OF this x(1), of "splitPath path2"]
  obtain y where
    "nodeAt ?keys (addSegments (splitPath path2) ?fin2 ?t1) = Some y"
    "paramName y = paramName x"
    by (elim exE conjE)
  with x show ?thesis
    by (simp add: methods_addRoute assms(3) [symmetric] addRoute_outcome)
qed

theorem C2_first_param_name_kept_witness:
  "map_option paramName
     (nodeAt [''users'', '':param'']
        (methods (snd (addRoute groupsClosed
                    (snd (addRoute groupsClosed (newRouter :: unit router) GET ''/users/:id''
                            (respond 200 ''first'') []))
                    GET ''/users/:name'' (respond 200 ''second'') [])) GET))
   = Some (Some ''id'')
   \<and> fst (addRoute groupsClosed (newRouter :: unit router) GET ''/users/:id''
            (respond 200 ''first'') []) = None
   \<and> fst (addRoute groupsClosed
            (snd (addRoute groupsClosed (newRouter :: unit router) GET ''/users/:id''
                    (respond 200 ''first'') []))
            GET ''/users/:name'' (respond 200 ''second'') []) = None"
proof -
  have keys: "map segKey [''users''] @ ['':param''] = [''users'', '':param'']"
    by code_simp
  have fresh: "nodeAt [''users'', '':param''] (methods (newRouter :: unit router) GET) = None"
    by (simp add: newRouter_def newTrieNode_def)
  have pm: "paramMatch '':id'' = Some ''id''" "paramMatch '':name'' = Some ''name''"
    by code_simp+
  have s1: "splitPath ''/users/:id'' = [''users''] @ '':id'' # []"
    and s2: "splitPath ''/users/:name'' = [''users''] @ '':name'' # []"
    by (simp_all add: split_users_id split_users_name)
  note both = C2_first_param_name_kept [OF s1 s2 refl pm, of groupsClosed
      "newRouter :: unit router" GET "respond 200 ''first''" "[]" "respond 200 ''second''" "[]",
      unfolded keys]
  from both [THEN conjunct2, THEN conjunct2, THEN conjunct1] fresh
  have "map_option paramName
     (nodeAt [''users'', '':param'']
        (methods (snd (addRoute groupsClosed
                    (snd (addRoute groupsClosed (newRouter :: unit router) GET ''/users/:id''
                            (respond 200 ''first'') []))
                    GET ''/users/:name'' (respond 200 ''second'') [])) GET))
   = Some (Some ''id'')"
    by (rule mp)
  with both [THEN conjunct2, THEN conjunct2, THEN conjunct2] show ?thesis
    by (simp add: sources_taken)
qed

text \<open>
  C2 as stated fails: after \<^verbatim>\<open>/users/:id\<close> and then \<^verbatim>\<open>/users/:name\<close> under GET, the shared
  node does not store the last name, and the second handler gets the segment of
  \<^verbatim>\<open>GET /users/7\<close> as \<^verbatim>\<open>params.id\<close>, with \<^verbatim>\<open>params.name\<close> undefined.
\<close>

theorem C2_last_name_not_stored:
  "map_option paramName
     (nodeAt [''users'', '':param'']
        (methods (snd (addRoute groupsClosed
                    (snd (addRoute groupsClosed (newRouter :: unit router) GET ''/users/:id''
                            (echoParams [''id'']) []))
                    GET ''/users/:name'' (echoParams [''name'', ''id'']) [])) GET))
   \<noteq> Some (Some ''name'')
   \<and> fst (route (snd (addRoute groupsClosed
                    (snd (addRoute groupsClosed (newRouter :: unit router) GET ''/users/:id''
                            (echoParams [''id'']) []))
                    GET ''/users/:name'' (echoParams [''name'', ''id'']) []))
            (getRequest ''/users/7'' []) ())
     = Inr \<lparr> status = 200, body = ''undefined,7'' \<rparr>"
  by code_simp

text \<open>
  C3. The splat branch slices the path at \<^verbatim>\<open>pathname.indexOf(segment)\<close>, the first index
  that holds the value of the current segment. For \<^verbatim>\<open>/files/*path\<close> the request
  \<^verbatim>\<open>/files/a/b/c\<close> binds \<^verbatim>\<open>path\<close> to \<^verbatim>\<open>"a/b/c"\<close>, but \<^verbatim>\<open>/files/files/x\<close>, where the segment at
  index 1 also stands at index 0, binds it to \<^verbatim>\<open>"files/files/x"\<close> and not to the remainder
  \<^verbatim>\<open>"files/x"\<close>.
\<close>

theorem C3_splat_repeated_segment:
  "fst (route (snd (get groupsClosed (newRouter :: unit router) ''/files/*path''
                      (echoParam ''path'') []))
          (getRequest ''/files/a/b/c'' []) ())
   = Inr \<lparr> status = 200, body = ''a/b/c'' \<rparr>
   \<and> fst (route (snd (get groupsClosed (newRouter :: unit router) ''/files/*path''
                      (echoParam ''path'') []))
          (getRequest ''/files/files/x'' []) ())
   = Inr \<lparr> status = 200, body = ''files/files/x'' \<rparr>
   \<and> fst (get groupsClosed (newRouter :: unit router) ''/files/*path''
            (echoParam ''path'') []) = None"
  by code_simp

text \<open>
  C4 (as amended). For a matched request with global middlewares \<open>[A, B]\<close> and route
  middlewares \<open>[C, D]\<close> the chain is \<open>A\<close> around \<open>B\<close> around \<open>C\<close> around \<open>D\<close> around the
  handler, so they are entered in the order A, B, C, D, handler as long as each one
  invokes its continuation. If one of them, \<open>H\<close>, returns without invoking its
  continuation, the middlewares after it and the handler drop out of the chain: they
  never execute, and the response \<open>H\<close> returns is what the continuation of the
  middleware before it yields. \<^verbatim>\<open>route\<close> returns exactly that response when every
  middleware before \<open>H\<close> returns the result of its continuation.
\<close>

theorem C4_chain_order:
  assumes "methodNamed (toUpperCase (req_method req)) = Some m"
    and "populateParams req (freshState w) = (Inr u, s1)"
    and "walk (pathSegments (req_pathname req)) (pathSegments (req_pathname req))
           (methods r m) (params s1) = Some (node, ps)"
    and "globalMiddlewares r = [A, B]"
    and "middlewares node = [C, D]"
  shows
    "route r req w =
       A req (B req (C req (D req (handleRoute node req)))) (s1\<lparr> params := ps \<rparr>)
   \<and> (\<forall>pre H post h.
         [A, B, C, D] = pre @ H # post \<and> (\<forall>k. H req k = h)
         \<longrightarrow> route r req w = chain pre req h (s1\<lparr> params := ps \<rparr>)
           \<and> ((\<forall>mw \<in> set pre. \<forall>k s. \<exists>s'. mw req k s = k s')
                \<longrightarrow> (\<exists>s'. route r req w = h s')))"
proof -
  from route_matched [OF assms(1-3)] assms(4,5)
  have r: "route r req w = chain [A, B, C, D] req (handleRoute node req) (s1\<lparr> params := ps \<rparr>)"
    by simp
  then have first: "route r req w =
       A req (B req (C req (D req (handleRoute node req)))) (s1\<lparr> params := ps \<rparr>)"
    by (simp add: chain_def)
  have second: "route r req w = chain pre req h (s1\<lparr> params := ps \<rparr>)
           \<and> ((\<forall>mw \<in> set pre. \<forall>k s. \<exists>s'. mw req k s = k s')
                \<longrightarrow> (\<exists>s'. route r req w = h s'))"
    if split: "[A, B, C, D] = pre @ H # post" and halts: "\<forall>k. H req k = h"
    for pre H post h
  proof -
    from halts have "chain (H # post) req (handleRoute node req) = h"
      by (simp add: chain_Cons)
    with r split have eq: "route r req w = chain pre req h (s1\<lparr> params := ps \<rparr>)"
      by (simp add: chain_append)
    moreover have "\<exists>s'. route r req w = h s'"
      if "\<forall>mw \<in> set pre. \<forall>k s. \<exists>s'. mw req k s = k s'"
      using chain_passing [OF that, of h "s1\<lparr> params := ps \<rparr>"] eq by simp
    ultimately show ?thesis
      by blast
  qed
  from first second show ?thesis
    by blast
qed

theorem C4_chain_order_witness:
  "route (sampleRouter [recorded ''A'' passOn, recorded ''B'' passOn]
            [recorded ''C'' passOn, recorded ''D'' passOn]
            (recordedHandler ''H'' (respond 200 ''ok'')))
     (getRequest ''/ping'' []) ([], ())
   = (Inr \<lparr> status = 200, body = ''ok'' \<rparr>,
      \<lparr> params = emptyObject, bodyUsed = False,
        world = ([''A'', ''B'', ''C'', ''D'', ''H''], ()) \<rparr>)
   \<and> route (sampleRouter [recorded ''A'' passOn, recorded ''B'' (halt 401 ''denied'')]
            [recorded ''C'' passOn, recorded ''D'' passOn]
            (recordedHandler ''H'' (respond 200 ''ok'')))
     (getRequest ''/ping'' []) ([], ())
   = (Inr \<lparr> status = 401, body = ''denied'' \<rparr>,
      \<lparr> params = emptyObject, bodyUsed = False, world = ([''A'', ''B''], ()) \<rparr>)"
proof
  let ?A = "recorded ''A'' passOn :: (string list \<times> unit) middleware"
  let ?C = "recorded ''C'' passOn :: (string list \<times> unit) middleware"
  let ?D = "recorded ''D'' passOn :: (string list \<times> unit) middleware"
  let ?h = "recordedHandler ''H'' (respond 200 ''ok'') :: (string list \<times> unit) callback"
  let ?req = "getRequest ''/ping'' []"
  {
    let ?B = "recorded ''B'' passOn :: (string list \<times> unit) middleware"
    let ?r = "sampleRouter [?A, ?B] [?C, ?D] ?h"
    have "middlewares (setRoute ?h (patternSource ''/ping'') [?C, ?D] newTrieNode) = [?C, ?D]"
      by simp
    note t = C4_chain_order [OF ping_request ping_walk sampleRouter_globals this]
    from t [THEN conjunct1]
    show "route ?r ?req ([], ()) =
        (Inr \<lparr> status = 200, body = ''ok'' \<rparr>,
         \<lparr> params = emptyObject, bodyUsed = False,
           world = ([''A'', ''B'', ''C'', ''D'', ''H''], ()) \<rparr>)"
      by (simp add: recorded_def passOn_def recordCall_def handleRoute_def recordedHandler_def
          respond_def freshState_def)
  }
  {
    let ?B = "recorded ''B'' (halt 401 ''denied'') :: (string list \<times> unit) middleware"
    let ?b = "\<lambda>s :: (string list \<times> unit) rstate.
        (Inr \<lparr> status = 401, body = ''denied'' \<rparr> :: failure + response, recordCall ''B'' s)"
    let ?r = "sampleRouter [?A, ?B] [?C, ?D] ?h"
    have "middlewares (setRoute ?h (patternSource ''/ping'') [?C, ?D] newTrieNode) = [?C, ?D]"
      by simp
    note t = C4_chain_order [OF ping_request ping_walk sampleRouter_globals this]
    have "[?A, ?B, ?C, ?D] = [?A] @ ?B # [?C, ?D] \<and> (\<forall>k. ?B ?req k = ?b)"
      by (simp add: recorded_def halt_def fun_eq_iff)
    from t [THEN conjunct2, rule_format, OF this, THEN conjunct1]
    show "route ?r ?req ([], ()) =
        (Inr \<lparr> status = 401, body = ''denied'' \<rparr>,
         \<lparr> params = emptyObject, bodyUsed = False, world = ([''A'', ''B''], ()) \<rparr>)"
      by (simp add: chain_def recorded_def passOn_def recordCall_def freshState_def)
  }
qed

text \<open>
  C4 as stated fails: \<open>B\<close> returns 401 without invoking its continuation (\<open>C\<close>, \<open>D\<close> and
  the handler do not run), but \<open>A\<close> awaits its continuation and returns a response of its
  own, and that one is what \<^verbatim>\<open>route\<close> returns.
\<close>

theorem C4_earlier_middleware_replaces_response:
  "fst (route (sampleRouter [recorded ''A'' (replaceResponse 500 ''rewritten''),
                             recorded ''B'' (halt 401 ''denied'')]
                 [recorded ''C'' passOn, recorded ''D'' passOn]
                 (recordedHandler ''H'' (respond 200 ''ok'')))
          (getRequest ''/ping'' []) ([], ()))
   = Inr \<lparr> status = 500, body = ''rewritten'' \<rparr>
   \<and> fst (world (snd (route (sampleRouter [recorded ''A'' (replaceResponse 500 ''rewritten''),
                             recorded ''B'' (halt 401 ''denied'')]
                 [recorded ''C'' passOn, recorded ''D'' passOn]
                 (recordedHandler ''H'' (respond 200 ''ok'')))
          (getRequest ''/ping'' []) ([], ()))))
   = [''A'', ''B'']"
  by code_simp

text \<open>
  C5 (as amended). The continuation handed to a middleware is the rest of the chain, and
  nothing keeps it from running again: each invocation of the continuation enters the
  next middleware once more. When every middleware of the chain invokes its continuation
  at most once, every position of the chain (the global middlewares, then the route's) is
  entered at most once for a request, and in order: with each middleware recording its name
  on entry, the names recorded during \<^verbatim>\<open>route\<close> are those of the first \<open>n\<close> positions, for some
  \<open>n\<close>. A middleware that is registered at two positions is entered once for each.
\<close>

theorem C5_invoked_at_most_once:
  assumes "methodNamed (toUpperCase (req_method req)) = Some m"
    and "populateParams req (freshState w) = (Inr u, s1)"
    and "walk (pathSegments (req_pathname req)) (pathSegments (req_pathname req))
           (methods r m) (params s1) = Some (node, ps)"
    and "globalMiddlewares r = map tracked globals"
    and "middlewares node = map tracked locals"
    and "\<forall>spec \<in> set (globals @ locals). quiet spec"
    and "keepsJournal (handleRoute node req)"
  shows "\<exists>n. n \<le> length (globals @ locals)
            \<and> journal (snd (route r req w)) = fst w @ take n (map fst (globals @ locals))"
proof -
  from route_matched [OF assms(1-3)] assms(4,5)
  have r: "route r req w =
      chain (map tracked (globals @ locals)) req (handleRoute node req) (s1\<lparr> params := ps \<rparr>)"
    by simp
  from entersInOrder_chain [OF assms(7,6), of req]
  obtain n where
    "n \<le> length (map fst (globals @ locals))"
    "journal (snd (chain (map tracked (globals @ locals)) req (handleRoute node req)
        (s1\<lparr> params := ps \<rparr>)))
      = journal (s1\<lparr> params := ps \<rparr>) @ take n (map fst (globals @ locals))"
    unfolding entersInOrder_def by blast
  moreover from populate_world [OF assms(2)] have "journal (s1\<lparr> params := ps \<rparr>) = fst w"
    by (simp add: journal_def freshState_def)
  ultimately show ?thesis
    using r by (intro exI [of _ n]) simp
qed

theorem C5_invoked_at_most_once_witness:
  "(\<exists>n. n \<le> 3 \<and> journal (snd (route
      (sampleRouter
         (map tracked [(''auth'', goOn, giveBack), (''log'', goOn, giveBack)])
         (map tracked [(''auth'', goOn, giveBack)])
         (respond 200 ''ok''))
      (getRequest ''/ping'' []) ([], ()))) = take n [''auth'', ''log'', ''auth''])
   \<and> fst (world (snd (route
      (sampleRouter
         (map tracked [(''auth'', goOn, giveBack), (''log'', goOn, giveBack)])
         (map tracked [(''auth'', goOn, giveBack)])
         (respond 200 ''ok''))
      (getRequest ''/ping'' []) ([], ())))) = [''auth'', ''log'', ''auth'']
   \<and> fst (world (snd (route
      (sampleRouter
         (map tracked [(''auth'', goOn, giveBack), (''log'', answer 401 ''denied'', giveBack)])
         (map tracked [(''auth'', goOn, giveBack)])
         (respond 200 ''ok''))
      (getRequest ''/ping'' []) ([], ())))) = [''auth'', ''log'']"
proof (intro conjI)
  let ?globals = "[(''auth'', goOn, giveBack), (''log'', goOn, giveBack)]
    :: (string \<times> (request \<Rightarrow> (string list \<times> unit) rstate
               \<Rightarrow> ((failure + response) + unit) \<times> (string list \<times> unit) rstate)
          \<times> (request \<Rightarrow> unit \<Rightarrow> (failure + response) \<Rightarrow> (string list \<times> unit) comp)) list"
  let ?locals = "[(''auth'', goOn, giveBack)]
    :: (string \<times> (request \<Rightarrow> (string list \<times> unit) rstate
               \<Rightarrow> ((failure + response) + unit) \<times> (string list \<times> unit) rstate)
          \<times> (request \<Rightarrow> unit \<Rightarrow> (failure + response) \<Rightarrow> (string list \<times> unit) comp)) list"
  let ?h = "respond 200 ''ok'' :: (string list \<times> unit) callback"
  let ?node = "setRoute ?h (patternSource ''/ping'') (map tracked ?locals) newTrieNode"
  have l: "middlewares ?node = map tracked ?locals"
    by simp
  have q: "\<forall>spec \<in> set (?globals @ ?locals). quiet spec"
    by (simp add: quiet_def goOn_def giveBack_def)
  have k: "keepsJournal (handleRoute ?node (getRequest ''/ping'' []))"
    by (simp add: keepsJournal_def handleRoute_def respond_def)
  from C5_invoked_at_most_once [OF ping_request(1)
      ping_request(2) [of "([] :: string list, ())"] ping_walk sampleRouter_globals l q k]
  show "\<exists>n. n \<le> 3 \<and> journal (snd (route
      (sampleRouter (map tracked ?globals) (map tracked ?locals) ?h)
      (getRequest ''/ping'' []) ([], ()))) = take n [''auth'', ''log'', ''auth'']"
    by (simp add: numeral_3_eq_3)
next
  show "fst (world (snd (route
      (sampleRouter
         (map tracked [(''auth'', goOn, giveBack), (''log'', goOn, giveBack)])
         (map tracked [(''auth'', goOn, giveBack)])
         (respond 200 ''ok''))
      (getRequest ''/ping'' []) ([], ())))) = [''auth'', ''log'', ''auth'']"
    by code_simp
next
  show "fst (world (snd (route
      (sampleRouter
         (map tracked [(''auth'', goOn, giveBack), (''log'', answer 401 ''denied'', giveBack)])
         (map tracked [(''auth'', goOn, giveBack)])
         (respond 200 ''ok''))
      (getRequest ''/ping'' []) ([], ())))) = [''auth'', ''log'']"
    by code_simp
qed

text \<open>
  C5 as stated fails: when \<open>A\<close> invokes its continuation twice, \<open>B\<close> and the handler are
  invoked twice.
\<close>

theorem C5_continuation_invoked_twice:
  "fst (world (snd (route
      (sampleRouter [recorded ''A'' callTwice, recorded ''B'' passOn] []
         (recordedHandler ''H'' (respond 200 ''ok'')))
      (getRequest ''/ping'' []) ([], ()))))
   = [''A'', ''B'', ''H'', ''B'', ''H'']
   \<and> count_list (fst (world (snd (route
      (sampleRouter [recorded ''A'' callTwice, recorded ''B'' passOn] []
         (recordedHandler ''H'' (respond 200 ''ok'')))
      (getRequest ''/ping'' []) ([], ()))))) ''B'' = 2"
  by code_simp




text \<open>
  C7. \<^verbatim>\<open>POST /users\<close> with \<^verbatim>\<open>Content-Type: application/json\<close> and a JSON object as body:
  \<^verbatim>\<open>route\<close> has read the body when it filled the parameter map (line 182), so the
  \<^verbatim>\<open>request.json()\<close> of the wrapping handler (line 267) rejects with a \<^verbatim>\<open>TypeError\<close> and
  \<open>create\<close> is never invoked; \<^verbatim>\<open>route\<close> rejects with that error. With \<^verbatim>\<open>text/plain\<close> the
  response is 415 and \<open>create\<close> is not invoked. The wrapping handler alone, on a request
  whose body has not been read, does invoke \<open>create\<close> with the parsed body.
\<close>

theorem C7_create_reads_body_twice:
  "fst (route (snd (mapModelController groupsClosed newRouter ''/users'' sampleController []))
          (jsonRequest ''POST'' ''/users'' ''application/json'' (JObj [(''name'', JStr ''Ann'')]))
          ([], ())) = Inl TypeError
   \<and> fst (world (snd (route
          (snd (mapModelController groupsClosed newRouter ''/users'' sampleController []))
          (jsonRequest ''POST'' ''/users'' ''application/json'' (JObj [(''name'', JStr ''Ann'')]))
          ([], ())))) = []
   \<and> fst (route (snd (mapModelController groupsClosed newRouter ''/users'' sampleController []))
          (jsonRequest ''POST'' ''/users'' ''text/plain'' (JObj [(''name'', JStr ''Ann'')]))
          ([], ())) = Inr unsupportedMediaType
   \<and> fst (world (snd (route
          (snd (mapModelController groupsClosed newRouter ''/users'' sampleController []))
          (jsonRequest ''POST'' ''/users'' ''text/plain'' (JObj [(''name'', JStr ''Ann'')]))
          ([], ())))) = []
   \<and> fst (createHandler sampleCreate
          (jsonRequest ''POST'' ''/users'' ''application/json'' (JObj [(''name'', JStr ''Ann'')]))
          (freshState ([], ())))
       = Inr \<lparr> status = 201, body = ''[object Object]'' \<rparr>
   \<and> fst (world (snd (createHandler sampleCreate
          (jsonRequest ''POST'' ''/users'' ''application/json'' (JObj [(''name'', JStr ''Ann'')]))
          (freshState ([], ()))))) = [''create'']
   \<and> fst (mapModelController groupsClosed
            (newRouter :: (string list \<times> unit) router) ''/users'' sampleController []) = None"
  by code_simp

text \<open>
  C8 (as amended). When the trie walk fails at a segment, \<^verbatim>\<open>route\<close> returns the 404
  response at once: no middleware and no handler runs. When the walk uses up the path
  and ends on a node without a stored handler, no handler is invoked and the 404
  response is the last stage of the middleware chain, which still runs: \<^verbatim>\<open>route\<close> returns
  404 when no middleware is registered. With only \<^verbatim>\<open>/users/:id\<close> under GET, \<^verbatim>\<open>/users/42\<close>
  invokes the handler with the parameters \<^verbatim>\<open>{id: "42"}\<close> and \<^verbatim>\<open>/users/42/extra\<close> yields
  404.
\<close>

theorem C8_not_found:
  assumes "methodNamed (toUpperCase (req_method req)) = Some m"
    and "populateParams req (freshState w) = (Inr u, s1)"
  shows
    "(walk (pathSegments (req_pathname req)) (pathSegments (req_pathname req))
         (methods r m) (params s1) = None
       \<longrightarrow> route r req w = (Inr send404, s1))
   \<and> (walk (pathSegments (req_pathname req)) (pathSegments (req_pathname req))
         (methods r m) (params s1) = Some (node, ps) \<and> callback node = None
       \<longrightarrow> route r req w =
             chain (globalMiddlewares r @ middlewares node) req (\<lambda>s. (Inr send404, s))
               (s1\<lparr> params := ps \<rparr>)
         \<and> (globalMiddlewares r = [] \<and> middlewares node = []
              \<longrightarrow> route r req w = (Inr send404, s1\<lparr> params := ps \<rparr>)))
   \<and> route (snd (get accepts newRouter ''/users/:id'' h [])) (getRequest ''/users/42'' []) w =
       h (getRequest ''/users/42'' [])
         \<lparr> params = \<lparr> own = [''id'' \<mapsto> JStr ''42''], inherits = ObjectPrototype \<rparr>,
           bodyUsed = False, world = w \<rparr>
   \<and> route (snd (get accepts newRouter ''/users/:id'' h [])) (getRequest ''/users/42/extra'' []) w =
       (Inr send404, freshState w)"
proof (intro conjI impI)
  assume "walk (pathSegments (req_pathname req)) (pathSegments (req_pathname req))
         (methods r m) (params s1) = None"
  with assms show "route r req w = (Inr send404, s1)"
    by (rule route_unmatched)
next
  assume a: "walk (pathSegments (req_pathname req)) (pathSegments (req_pathname req))
         (methods r m) (params s1) = Some (node, ps) \<and> callback node = None"
  then have w: "walk (pathSegments (req_pathname req)) (pathSegments (req_pathname req))
         (methods r m) (params s1) = Some (node, ps)"
    and c: "callback node = None"
    by simp_all
  from route_matched [OF assms w] handleRoute_no_callback [OF c, of req]
  show chained: "route r req w =
      chain (globalMiddlewares r @ middlewares node) req (\<lambda>s. (Inr send404, s))
        (s1\<lparr> params := ps \<rparr>)"
    by simp
  assume "globalMiddlewares r = [] \<and> middlewares node = []"
  with chained show "route r req w = (Inr send404, s1\<lparr> params := ps \<rparr>)"
    by (simp add: chain_def)
next
  show "route (snd (get accepts newRouter ''/users/:id'' h [])) (getRequest ''/users/42'' []) w =
       h (getRequest ''/users/42'' [])
         \<lparr> params = \<lparr> own = [''id'' \<mapsto> JStr ''42''], inherits = ObjectPrototype \<rparr>,
           bodyUsed = False, world = w \<rparr>"
    by (rule users_42)
next
  show "route (snd (get accepts newRouter ''/users/:id'' h [])) (getRequest ''/users/42/extra'' []) w =
       (Inr send404, freshState w)"
    by (rule users_42_extra)
qed

theorem C8_not_found_witness:
  "route (snd (get groupsClosed (newRouter :: unit router) ''/users/:id''
                 (respond 200 ''user'') []))
     (getRequest ''/users'' []) () = (Inr send404, freshState ())
   \<and> route (snd (get groupsClosed (newRouter :: unit router) ''/users/:id''
                 (respond 200 ''user'') []))
     (getRequest ''/users/42/extra'' []) () = (Inr send404, freshState ())
   \<and> fst (get groupsClosed (newRouter :: unit router) ''/users/:id''
            (respond 200 ''user'') []) = None"
proof -
  let ?r = "snd (get groupsClosed (newRouter :: unit router) ''/users/:id''
                   (respond 200 ''user'') [])"
  let ?node = "setChild (newTrieNode :: unit trie_node) '':param''
          (lastAssignments groupsClosed ''/users/:id'' (respond 200 ''user'') []
             (setParamName newTrieNode ''id''))"
  have m: "methodNamed (toUpperCase (req_method (getRequest ''/users'' []))) = Some GET"
    by (simp add: users_requests)
  have p: "populateParams (getRequest ''/users'' []) (freshState ()) = (Inr (), freshState ())"
    by (rule populate_get)
  have w: "walk (pathSegments (req_pathname (getRequest ''/users'' [])))
         (pathSegments (req_pathname (getRequest ''/users'' [])))
         (methods ?r GET) (params (freshState ())) = Some (?node, emptyObject)
       \<and> callback ?node = None"
    by (simp add: users_requests users_trie freshState_def)
  have e: "globalMiddlewares ?r = [] \<and> middlewares ?node = []"
    by simp
  note t = C8_not_found [OF m p, where r = ?r and node = ?node and ps = emptyObject
      and h = "respond 200 ''user''" and accepts = groupsClosed]
  from t [THEN conjunct2, THEN conjunct1, THEN mp, OF w, THEN conjunct2, THEN mp, OF e]
  have "route ?r (getRequest ''/users'' []) () = (Inr send404, freshState ())"
    by (simp add: freshState_def)
  moreover have "fst (get groupsClosed (newRouter :: unit router) ''/users/:id''
            (respond 200 ''user'') []) = None"
    by (simp add: get_def addRoute_outcome sources_taken)
  ultimately show ?thesis
    using t [THEN conjunct2, THEN conjunct2, THEN conjunct2] by simp
qed

text \<open>
  C8 as stated fails: with a global middleware that answers by itself, a request that
  ends on the handler-less node \<^verbatim>\<open>/users\<close> gets that middleware's response, not 404.
\<close>

theorem C8_middleware_answers_for_prefix_node:
  "fst (route (use (snd (get groupsClosed (newRouter :: unit router) ''/users/:id''
                           (respond 200 ''user'') []))
                 (halt 401 ''denied''))
          (getRequest ''/users'' []) ())
   = Inr \<lparr> status = 401, body = ''denied'' \<rparr>"
  by code_simp

text \<open>
  C9 (as amended). For a path whose pattern source \<^verbatim>\<open>new RegExp\<close> takes, registering the same
  method and path twice, first with handler \<open>h1\<close> and then with \<open>h2\<close>, raises no error and
  leaves the router in exactly the state that registering \<open>h2\<close> alone produces. The node of
  that route stores \<open>h2\<close>, the pattern and the second middleware list. A request of that
  method whose walk ends on that node runs the global middlewares and the second list around
  \<open>h2\<close>; among these requests are those whose segments are the keys of the path, which for a
  path of literal segments are its segments.
\<close>

theorem C9_reregistration_overwrites:
  fixes r :: "'w router"
  assumes "accepts (patternSource path)"
  shows
    "fst (addRoute accepts r m path h1 ms1) = None
   \<and> addRoute accepts (snd (addRoute accepts r m path h1 ms1)) m path h2 ms2
       = (None, snd (addRoute accepts r m path h2 ms2))
   \<and> (\<exists>n. nodeAt (map segKey (splitPath path))
             (methods (snd (addRoute accepts (snd (addRoute accepts r m path h1 ms1))
                              m path h2 ms2)) m) = Some n
          \<and> callback n = Some h2
          \<and> pattern n = Some (patternSource path)
          \<and> middlewares n = ms2)
   \<and> (\<forall>req w u s1 writes.
         methodNamed (toUpperCase (req_method req)) = Some m
         \<and> populateParams req (freshState w) = (Inr u, s1)
         \<and> trace (pathSegments (req_pathname req)) (pathSegments (req_pathname req))
             (methods (snd (addRoute accepts (snd (addRoute accepts r m path h1 ms1))
                              m path h2 ms2)) m)
           = Some (map segKey (splitPath path), writes)
         \<longrightarrow> route (snd (addRoute accepts (snd (addRoute accepts r m path h1 ms1))
                           m path h2 ms2)) req w
             = chain (globalMiddlewares r @ ms2) req (h2 req)
                 (s1\<lparr> params := assignAll writes (params s1) \<rparr>))
   \<and> (\<forall>req w u s1.
         methodNamed (toUpperCase (req_method req)) = Some m
         \<and> populateParams req (freshState w) = (Inr u, s1)
         \<and> pathSegments (req_pathname req) = map segKey (splitPath path)
         \<longrightarrow> route (snd (addRoute accepts (snd (addRoute accepts r m path h1 ms1))
                           m path h2 ms2)) req w
             = chain (globalMiddlewares r @ ms2) req (h2 req) s1)"
proof -
  let ?R = "snd (addRoute accepts (snd (addRoute accepts r m path h1 ms1)) m path h2 ms2)"
  let ?K = "map segKey (splitPath path)"
  have same: "addRoute accepts (snd (addRoute accepts r m path h1 ms1)) m path h2 ms2
      = addRoute accepts r m path h2 ms2"
    by (rule addRoute_twice)
  have first: "fst (addRoute accepts r m path h1 ms1) = None"
    using assms by (simp add: addRoute_outcome)
  have second: "addRoute accepts (snd (addRoute accepts r m path h1 ms1)) m path h2 ms2
       = (None, snd (addRoute accepts r m path h2 ms2))"
    unfolding same using assms by (simp add: prod_eq_iff addRoute_outcome)
  from registered_node [where accepts = accepts and path = path and r = r and m = m
      and cb = h2 and ms = ms2, OF assms]
  obtain n where n: "nodeAt ?K (methods ?R m) = Some n" "callback n = Some h2"
    "pattern n = Some (patternSource path)" "middlewares n = ms2"
    unfolding same by (elim exE conjE)
  have globals: "globalMiddlewares ?R = globalMiddlewares r"
    by simp
  have traced: "route ?R req w =
      chain (globalMiddlewares r @ ms2) req (h2 req) (s1\<lparr> params := assignAll writes (params s1) \<rparr>)"
    if "methodNamed (toUpperCase (req_method req)) = Some m"
      and "populateParams req (freshState w) = (Inr u, s1)"
      and "trace (pathSegments (req_pathname req)) (pathSegments (req_pathname req))
             (methods ?R m) = Some (?K, writes)"
    for req and w :: 'w and u s1 writes
    using route_traced [OF that n(1)] handleRoute_callback [OF n(2), of req]
    by (simp add: globals n(4))
  have keyed: "route ?R req w = chain (globalMiddlewares r @ ms2) req (h2 req) s1"
    if "methodNamed (toUpperCase (req_method req)) = Some m"
      and "populateParams req (freshState w) = (Inr u, s1)"
      and "pathSegments (req_pathname req) = ?K"
    for req and w :: 'w and u s1
    using route_at_keys [OF that n(1,2)] by (simp add: globals n(4))
  show ?thesis
  proof (intro conjI allI impI)
    show "fst (addRoute accepts r m path h1 ms1) = None"
      by (rule first)
    show "addRoute accepts (snd (addRoute accepts r m path h1 ms1)) m path h2 ms2
       = (None, snd (addRoute accepts r m path h2 ms2))"
      by (rule second)
    from n show "\<exists>n. nodeAt ?K (methods ?R m) = Some n \<and> callback n = Some h2
          \<and> pattern n = Some (patternSource path) \<and> middlewares n = ms2"
      by (intro exI [of _ n] conjI)
  next
    fix req and w :: 'w and u s1 writes
    assume "methodNamed (toUpperCase (req_method req)) = Some m
         \<and> populateParams req (freshState w) = (Inr u, s1)
         \<and> trace (pathSegments (req_pathname req)) (pathSegments (req_pathname req))
             (methods ?R m) = Some (?K, writes)"
    then show "route ?R req w =
        chain (globalMiddlewares r @ ms2) req (h2 req)
          (s1\<lparr> params := assignAll writes (params s1) \<rparr>)"
      by (elim conjE) (rule traced)
  next
    fix req and w :: 'w and u s1
    assume "methodNamed (toUpperCase (req_method req)) = Some m
         \<and> populateParams req (freshState w) = (Inr u, s1)
         \<and> pathSegments (req_pathname req) = ?K"
    then show "route ?R req w = chain (globalMiddlewares r @ ms2) req (h2 req) s1"
      by (elim conjE) (rule keyed)
  qed
qed

theorem C9_reregistration_overwrites_witness:
  "route (snd (addRoute groupsClosed
            (snd (addRoute groupsClosed newRouter GET ''/about''
                    (recordedHandler ''first'' (respond 200 ''one'')) [recorded ''M'' passOn]))
            GET ''/about'' (recordedHandler ''second'' (respond 200 ''two'')) []))
     (getRequest ''/about'' []) ([], ())
   = (Inr \<lparr> status = 200, body = ''two'' \<rparr>,
      \<lparr> params = emptyObject, bodyUsed = False, world = ([''second''], ()) \<rparr>)"
proof -
  have acc: "groupsClosed (patternSource ''/about'')"
    by (rule sources_taken)
  have req: "methodNamed (toUpperCase (req_method (getRequest ''/about'' []))) = Some GET
      \<and> populateParams (getRequest ''/about'' []) (freshState ([] :: string list, ()))
          = (Inr (), freshState ([], ()))
      \<and> pathSegments (req_pathname (getRequest ''/about'' [])) = map segKey (splitPath ''/about'')"
  proof (intro conjI)
    show "methodNamed (toUpperCase (req_method (getRequest ''/about'' []))) = Some GET"
      by (simp add: users_requests)
    show "populateParams (getRequest ''/about'' []) (freshState ([] :: string list, ()))
          = (Inr (), freshState ([], ()))"
      by (rule populate_get)
    show "pathSegments (req_pathname (getRequest ''/about'' [])) = map segKey (splitPath ''/about'')"
      unfolding getRequest_fields by code_simp
  qed
  from C9_reregistration_overwrites [where accepts = groupsClosed and path = "''/about''",
      OF acc, where r = newRouter and m = GET
      and ?h1.0 = "recordedHandler ''first'' (respond 200 ''one'')"
      and ?ms1.0 = "[recorded ''M'' passOn]"
      and ?h2.0 = "recordedHandler ''second'' (respond 200 ''two'')" and ?ms2.0 = "[]",
      THEN conjunct2, THEN conjunct2, THEN conjunct2, THEN conjunct2, rule_format, OF req]
  show ?thesis
    by (simp add: chain_def recordedHandler_def respond_def recordCall_def freshState_def)
qed

text \<open>
  C9 as stated fails. The path \<^verbatim>\<open>/(x\<close> gives the pattern source \<^verbatim>\<open>^/(x(?:\?|$)\<close>, whose first group
  is not closed: the first registration throws a \<^verbatim>\<open>SyntaxError\<close>. And after registering
  \<^verbatim>\<open>/docs/(v1)\<close> twice under GET, the requests \<^verbatim>\<open>/docs/v1\<close> and \<^verbatim>\<open>/docs\<close>, which the pattern
  matches, get 404 and invoke neither handler: the trie files the group under the key
  \<^verbatim>\<open>(v1)\<close>.
\<close>

theorem C9_registration_raises:
  "fst (addRoute groupsClosed (newRouter :: (string list \<times> unit) router) GET ''/(x''
          (recordedHandler ''first'' (respond 200 ''one'')) []) = Some SyntaxError
   \<and> patternSource ''/(x'' = ''^/(x(?:'' @ [CHR 0x5C] @ ''?|$)''
   \<and> fst (addRoute groupsClosed
            (snd (addRoute groupsClosed (newRouter :: (string list \<times> unit) router) GET
                    ''/docs/(v1)'' (recordedHandler ''first'' (respond 200 ''one'')) []))
            GET ''/docs/(v1)'' (recordedHandler ''second'' (respond 200 ''two'')) []) = None
   \<and> fst (route (snd (addRoute groupsClosed
            (snd (addRoute groupsClosed (newRouter :: (string list \<times> unit) router) GET
                    ''/docs/(v1)'' (recordedHandler ''first'' (respond 200 ''one'')) []))
            GET ''/docs/(v1)'' (recordedHandler ''second'' (respond 200 ''two'')) []))
       (getRequest ''/docs/v1'' []) ([], ()))
     = Inr send404
   \<and> fst (world (snd (route (snd (addRoute groupsClosed
            (snd (addRoute groupsClosed (newRouter :: (string list \<times> unit) router) GET
                    ''/docs/(v1)'' (recordedHandler ''first'' (respond 200 ''one'')) []))
            GET ''/docs/(v1)'' (recordedHandler ''second'' (respond 200 ''two'')) []))
       (getRequest ''/docs/v1'' []) ([], ())))) = []
   \<and> fst (route (snd (addRoute groupsClosed
            (snd (addRoute groupsClosed (newRouter :: (string list \<times> unit) router) GET
                    ''/docs/(v1)'' (recordedHandler ''first'' (respond 200 ''one'')) []))
            GET ''/docs/(v1)'' (recordedHandler ''second'' (respond 200 ''two'')) []))
       (getRequest ''/docs'' []) ([], ()))
     = Inr send404
   \<and> fst (world (snd (route (snd (addRoute groupsClosed
            (snd (addRoute groupsClosed (newRouter :: (string list \<times> unit) router) GET
                    ''/docs/(v1)'' (recordedHandler ''first'' (respond 200 ''one'')) []))
            GET ''/docs/(v1)'' (recordedHandler ''second'' (respond 200 ''two'')) []))
       (getRequest ''/docs'' []) ([], ())))) = []"
  by code_simp




end
